theory Spec2Isabelle
  imports Main "HOL-Library.Word"
begin

unbundle bit_operations_syntax

section \<open>The OCC response decoder of occ.c\<close>

text \<open>
  A shallow embedding of the decoding path of the BMC OCC hwmon driver:
  \<^verbatim>\<open>get_occdata_length\<close>, \<^verbatim>\<open>parse_occ_response\<close>, \<^verbatim>\<open>deinit_occ_resp_buf\<close>,
  \<^verbatim>\<open>occ_get_all\<close>, \<^verbatim>\<open>occ_update_device\<close> and the two temperature accessors.

  Conventions.
  \<^item> The driver targets a BMC (ARM), where plain \<^verbatim>\<open>char\<close> is unsigned: a byte of the
    response buffer is an \<open>8 word\<close> and promotes to a non-negative \<^verbatim>\<open>int\<close>. (The sample
    \<^verbatim>\<open>fake_occ_rsp\<close> relies on it: its length byte \<^verbatim>\<open>d[4] = 0xa4\<close> passes the check of
    \<^verbatim>\<open>occ_get_all\<close> only as an unsigned value.)
  \<^item> The buffer \<^verbatim>\<open>char *d\<close> is a byte list. The C code receives no length, so every
    read \<^verbatim>\<open>d[i]\<close> is modelled by \<open>rd\<close>: inside the list it yields the byte, outside it is
    the fault \<open>OOBRead i\<close> (undefined behaviour in C).
  \<^item> A pointer to a \<^verbatim>\<open>kzalloc\<close>'ed array is an \<open>option\<close>: \<open>None\<close> is \<^verbatim>\<open>NULL\<close>, \<open>Some xs\<close>
    the array with its elements. The allocator itself is the ledger \<open>kmem\<close>, which counts
    the arrays that are currently allocated and decides which \<^verbatim>\<open>kzalloc\<close> calls succeed.
  \<^item> Fields keep their C names, except \<^verbatim>\<open>value\<close> (\<open>sensor_value\<close>, \<open>powr_value\<close>), the
    \<^verbatim>\<open>sensor_id\<close> of a \<^verbatim>\<open>powr_sensor\<close> (\<open>powr_sensor_id\<close>) and the \<^verbatim>\<open>reserved0\<close> of a
    \<^verbatim>\<open>sensor_data_block\<close> (\<open>block_reserved0\<close>). The pointer arguments \<^verbatim>\<open>o\<close> and \<^verbatim>\<open>p\<close> are never
    \<^verbatim>\<open>NULL\<close> in the driver (they point to the static \<^verbatim>\<open>occ_resp\<close>) and are passed by value.
  \<^item> A function returns \<open>Inl fault\<close> when it performs an invalid memory access and
    \<open>Inr (ret, mem, resp)\<close> otherwise: the C return value, the allocator and the
    caller's \<^verbatim>\<open>occ_response_t\<close> after the call.
\<close>

subsection \<open>Data\<close>

type_synonym byte = "8 word"
type_synonym u16 = "16 word"
type_synonym u32 = "32 word"

datatype fault =
    OOBRead nat      \<comment> \<open>read of \<^verbatim>\<open>d[i]\<close> at an offset outside the response buffer\<close>
  | NullDeref        \<comment> \<open>access through a \<^verbatim>\<open>NULL\<close> pointer\<close>
  | BadIndex int     \<comment> \<open>element access outside a \<^verbatim>\<open>kzalloc\<close>'ed array\<close>
  | OOBWrite nat     \<comment> \<open>write at an offset outside the output buffer \<^verbatim>\<open>buf\<close>\<close>

record occ_sensor =
  sensor_id :: u16
  sensor_value :: u16

record powr_sensor =
  powr_sensor_id :: u16
  update_tag :: u32
  accumulator :: u32
  powr_value :: u16

record sensor_data_block =
  sensor_type :: "byte list"
  block_reserved0 :: byte
  sensor_format :: byte
  sensor_length :: byte
  num_of_sensors :: byte
  sensor :: "occ_sensor list option"
  powr :: "powr_sensor list option"

record occ_poll_data =
  status :: byte
  ext_status :: byte
  occs_present :: byte
  config :: byte
  occ_state :: byte
  reserved0 :: byte
  reserved1 :: byte
  error_log_id :: byte
  error_log_addr_start :: u32
  error_log_length :: u16
  reserved2 :: byte
  reserved3 :: byte
  occ_code_level :: "byte list"
  sensor_eye_catcher :: "byte list"
  num_of_sensor_blocks :: byte
  sensor_data_version :: byte
  blocks :: "sensor_data_block list option"

record occ_response_t =
  sequence_num :: byte
  cmd_type :: byte
  rtn_status :: byte
  data_length :: u16
  data :: occ_poll_data
  chk_sum :: u16
  temp_block_id :: u16
  freq_block_id :: u16
  power_block_id :: u16

text \<open>All-zero objects: what \<^verbatim>\<open>kzalloc\<close> and \<^verbatim>\<open>memset(p, 0, sizeof( *p))\<close> produce.\<close>

definition zero_sensor :: occ_sensor where
  "zero_sensor = \<lparr>sensor_id = 0, sensor_value = 0\<rparr>"

definition zero_powr :: powr_sensor where
  "zero_powr = \<lparr>powr_sensor_id = 0, update_tag = 0, accumulator = 0, powr_value = 0\<rparr>"

definition zero_block :: sensor_data_block where
  "zero_block = \<lparr>sensor_type = replicate 5 0, block_reserved0 = 0, sensor_format = 0,
     sensor_length = 0, num_of_sensors = 0, sensor = None, powr = None\<rparr>"

definition zero_poll_data :: occ_poll_data where
  "zero_poll_data = \<lparr>status = 0, ext_status = 0, occs_present = 0, config = 0, occ_state = 0,
     reserved0 = 0, reserved1 = 0, error_log_id = 0, error_log_addr_start = 0,
     error_log_length = 0, reserved2 = 0, reserved3 = 0, occ_code_level = replicate 17 0,
     sensor_eye_catcher = replicate 7 0, num_of_sensor_blocks = 0, sensor_data_version = 0,
     blocks = None\<rparr>"

definition zero_resp :: occ_response_t where
  "zero_resp = \<lparr>sequence_num = 0, cmd_type = 0, rtn_status = 0, data_length = 0,
     data = zero_poll_data, chk_sum = 0, temp_block_id = 0, freq_block_id = 0,
     power_block_id = 0\<rparr>"

subsection \<open>The allocator\<close>

text \<open>
  \<open>alloc_ok k\<close> says whether the \<open>k\<close>-th call of \<^verbatim>\<open>kzalloc\<close> succeeds; \<open>kcalls\<close> counts the
  calls made so far; the three \<open>live\<close> counters are the numbers of block arrays, sensor
  arrays and power arrays that are allocated and not yet freed.
\<close>

record kmem =
  alloc_ok :: "nat \<Rightarrow> bool"
  kcalls :: nat
  live_block_arrays :: nat
  live_sensor_arrays :: nat
  live_powr_arrays :: nat

definition ENOMEM :: int where
  "ENOMEM = 12"

definition OCC_DATA_MAX :: nat where
  "OCC_DATA_MAX = 4096"

definition kzalloc_blocks :: "nat \<Rightarrow> kmem \<Rightarrow> sensor_data_block list option \<times> kmem" where
  "kzalloc_blocks n m =
     (if alloc_ok m (kcalls m)
      then (Some (replicate n zero_block),
            m\<lparr>kcalls := kcalls m + 1, live_block_arrays := live_block_arrays m + 1\<rparr>)
      else (None, m\<lparr>kcalls := kcalls m + 1\<rparr>))"

definition kzalloc_sensors :: "nat \<Rightarrow> kmem \<Rightarrow> occ_sensor list option \<times> kmem" where
  "kzalloc_sensors n m =
     (if alloc_ok m (kcalls m)
      then (Some (replicate n zero_sensor),
            m\<lparr>kcalls := kcalls m + 1, live_sensor_arrays := live_sensor_arrays m + 1\<rparr>)
      else (None, m\<lparr>kcalls := kcalls m + 1\<rparr>))"

definition kzalloc_powrs :: "nat \<Rightarrow> kmem \<Rightarrow> powr_sensor list option \<times> kmem" where
  "kzalloc_powrs n m =
     (if alloc_ok m (kcalls m)
      then (Some (replicate n zero_powr),
            m\<lparr>kcalls := kcalls m + 1, live_powr_arrays := live_powr_arrays m + 1\<rparr>)
      else (None, m\<lparr>kcalls := kcalls m + 1\<rparr>))"

text \<open>\<^verbatim>\<open>kfree(NULL)\<close> does nothing.\<close>

definition kfree_blocks :: "sensor_data_block list option \<Rightarrow> kmem \<Rightarrow> kmem" where
  "kfree_blocks p m =
     (case p of None \<Rightarrow> m | Some _ \<Rightarrow> m\<lparr>live_block_arrays := live_block_arrays m - 1\<rparr>)"

definition kfree_sensors :: "occ_sensor list option \<Rightarrow> kmem \<Rightarrow> kmem" where
  "kfree_sensors p m =
     (case p of None \<Rightarrow> m | Some _ \<Rightarrow> m\<lparr>live_sensor_arrays := live_sensor_arrays m - 1\<rparr>)"

definition kfree_powrs :: "powr_sensor list option \<Rightarrow> kmem \<Rightarrow> kmem" where
  "kfree_powrs p m =
     (case p of None \<Rightarrow> m | Some _ \<Rightarrow> m\<lparr>live_powr_arrays := live_powr_arrays m - 1\<rparr>)"

subsection \<open>Reading the buffer, C strings\<close>

definition rd :: "byte list \<Rightarrow> nat \<Rightarrow> fault + byte" where
  "rd d i = (if i < length d then Inr (d ! i) else Inl (OOBRead i))"

text \<open>The reads \<^verbatim>\<open>d[i]\<close> for the offsets of a list, in that order.\<close>

fun rds :: "byte list \<Rightarrow> nat list \<Rightarrow> fault + byte list" where
  "rds d [] = Inr []"
| "rds d (i # is) =
     (case rd d i of
        Inl f \<Rightarrow> Inl f
      | Inr c \<Rightarrow> (case rds d is of Inl f \<Rightarrow> Inl f | Inr cs \<Rightarrow> Inr (c # cs)))"

text \<open>
  \<^verbatim>\<open>strncpy(dst, &d[i], n)\<close>: the \<open>n\<close> bytes written to \<open>dst\<close>. It copies up to the first NUL
  and fills the rest with NULs; it reads no byte of \<open>d\<close> behind that NUL.
\<close>

fun strncpy :: "byte list \<Rightarrow> nat \<Rightarrow> nat \<Rightarrow> fault + byte list" where
  "strncpy d i 0 = Inr []"
| "strncpy d i (Suc n) =
     (case rd d i of
        Inl f \<Rightarrow> Inl f
      | Inr c \<Rightarrow>
          if c = 0 then Inr (replicate (Suc n) 0)
          else (case strncpy d (i + 1) n of Inl f \<Rightarrow> Inl f | Inr cs \<Rightarrow> Inr (c # cs)))"

text \<open>The C string held by a char array: the bytes before the first NUL.\<close>

definition cstr :: "byte list \<Rightarrow> byte list" where
  "cstr a = takeWhile (\<lambda>c. c \<noteq> 0) a"

text \<open>
  What \<^verbatim>\<open>strncpy\<close> writes when its whole source window \<open>t\<close> lies inside the buffer: the
  C string of \<open>t\<close>, filled up with NULs to the length of \<open>t\<close>.
\<close>

definition strn :: "byte list \<Rightarrow> byte list" where
  "strn t = cstr t @ replicate (length t - length (cstr t)) 0"

text \<open>\<^verbatim>\<open>strcmp(a, lit) == 0\<close> for a string literal \<open>lit\<close>.\<close>

definition strcmp_eq :: "byte list \<Rightarrow> byte list \<Rightarrow> bool" where
  "strcmp_eq a lit = (cstr a = lit)"

definition str_SENSOR :: "byte list" where
  "str_SENSOR = [0x53, 0x45, 0x4e, 0x53, 0x4f, 0x52]"

definition str_FREQ :: "byte list" where
  "str_FREQ = [0x46, 0x52, 0x45, 0x51]"

definition str_TEMP :: "byte list" where
  "str_TEMP = [0x54, 0x45, 0x4d, 0x50]"

definition str_POWR :: "byte list" where
  "str_POWR = [0x50, 0x4f, 0x57, 0x52]"

text \<open>\<^verbatim>\<open>x = a << 8; x = x | b\<close> on a \<^verbatim>\<open>uint16_t\<close>, and the four-byte form on a \<^verbatim>\<open>uint32_t\<close>.\<close>

definition be16 :: "byte \<Rightarrow> byte \<Rightarrow> u16" where
  "be16 a b = push_bit 8 (ucast a) OR ucast b"

definition be32 :: "byte \<Rightarrow> byte \<Rightarrow> byte \<Rightarrow> byte \<Rightarrow> u32" where
  "be32 a b c e =
     push_bit 24 (ucast a) OR push_bit 16 (ucast b) OR push_bit 8 (ucast c) OR ucast e"

subsection \<open>\<^verbatim>\<open>get_occdata_length\<close>\<close>

definition get_occdata_length :: "byte list \<Rightarrow> fault + u16" where
  "get_occdata_length d =
     (case rd d 3 of
        Inl f \<Rightarrow> Inl f
      | Inr hi \<Rightarrow> (case rd d 4 of Inl f \<Rightarrow> Inl f | Inr lo \<Rightarrow> Inr (be16 hi lo)))"

subsection \<open>\<^verbatim>\<open>deinit_occ_resp_buf\<close>\<close>

text \<open>
  The loop of lines 133--138 over the blocks \<open>b, b + 1, ...\<close> below \<open>n\<close>. The source tests
  \<^verbatim>\<open>if (!p->data.blocks[b].sensor) kfree(p->data.blocks[b].sensor)\<close>: the call is made
  when the pointer is \<^verbatim>\<open>NULL\<close>.
\<close>

function deinit_loop :: "sensor_data_block list \<Rightarrow> nat \<Rightarrow> nat \<Rightarrow> kmem \<Rightarrow> fault + kmem" where
  "deinit_loop bl n b m =
     (if b < n then
        (if length bl \<le> b then Inl (BadIndex (int b))
         else
           let m1 = (if sensor (bl ! b) = None then kfree_sensors (sensor (bl ! b)) m else m);
               m2 = (if powr (bl ! b) = None then kfree_powrs (powr (bl ! b)) m1 else m1)
           in deinit_loop bl n (b + 1) m2)
      else Inr m)"
  by pat_completeness auto
termination
  by (relation "measure (\<lambda>(bl, n, b, m). n - b)") auto

declare deinit_loop.simps [simp del]

definition deinit_occ_resp_buf :: "kmem \<Rightarrow> occ_response_t \<Rightarrow> fault + (int \<times> kmem \<times> occ_response_t)" where
  "deinit_occ_resp_buf m p =
     (case blocks (data p) of
        None \<Rightarrow> Inr (0, m, p)
      | Some bl \<Rightarrow>
          (case deinit_loop bl (unat (num_of_sensor_blocks (data p))) 0 m of
             Inl f \<Rightarrow> Inl f
           | Inr m1 \<Rightarrow> Inr (0, kfree_blocks (Some bl) m1, zero_resp)))"

subsection \<open>\<^verbatim>\<open>parse_occ_response\<close>\<close>

text \<open>
  Lines 277--302: the fixed header. \<^verbatim>\<open>d[0]\<close> to \<^verbatim>\<open>d[20]\<close> are read in order, then the two
  \<^verbatim>\<open>strncpy\<close> calls read from offsets 21 and 37, then \<^verbatim>\<open>d[43]\<close> and \<^verbatim>\<open>d[44]\<close>. Every field
  is stored in the caller's structure \<open>r\<close>.
\<close>

definition parse_header :: "byte list \<Rightarrow> occ_response_t \<Rightarrow> fault + occ_response_t" where
  "parse_header d r =
     (case rds d [0, 1, 2, 3, 4, 5, 6, 7, 8, 9, 10, 11, 12, 13, 14, 15, 16, 17, 18, 19, 20] of
        Inl f \<Rightarrow> Inl f
      | Inr h \<Rightarrow>
     (case strncpy d 21 16 of
        Inl f \<Rightarrow> Inl f
      | Inr lvl \<Rightarrow>
     (case strncpy d 37 6 of
        Inl f \<Rightarrow> Inl f
      | Inr eye \<Rightarrow>
     (case rds d [43, 44] of
        Inl f \<Rightarrow> Inl f
      | Inr t \<Rightarrow>
          Inr (r\<lparr>sequence_num := h ! 0, cmd_type := h ! 1, rtn_status := h ! 2,
                 data_length := be16 (h ! 3) (h ! 4),
                 data := (data r)\<lparr>status := h ! 5, ext_status := h ! 6, occs_present := h ! 7,
                   config := h ! 8, occ_state := h ! 9, reserved0 := h ! 10,
                   reserved1 := h ! 11, error_log_id := h ! 12,
                   error_log_addr_start := be32 (h ! 13) (h ! 14) (h ! 15) (h ! 16),
                   error_log_length := be16 (h ! 17) (h ! 18),
                   reserved2 := h ! 19, reserved3 := h ! 20,
                   occ_code_level := lvl @ drop 16 (occ_code_level (data r)),
                   sensor_eye_catcher := (eye @ drop 6 (sensor_eye_catcher (data r)))[6 := 0],
                   num_of_sensor_blocks := t ! 0, sensor_data_version := t ! 1\<rparr>\<rparr>)))))"

text \<open>
  Lines 347--356 and 369--378: the record loop of a FREQ or TEMP block, from record \<open>s\<close>
  at cursor \<open>dnum\<close>; \<open>len\<close> is the block's \<^verbatim>\<open>sensor_length\<close>, \<open>n\<close> its \<^verbatim>\<open>num_of_sensors\<close> and
  \<open>arr\<close> the array behind \<^verbatim>\<open>blocks[b].sensor\<close>. The result is the array and the cursor
  after the loop.
\<close>

function sensor_loop ::
  "byte list \<Rightarrow> nat \<Rightarrow> nat \<Rightarrow> nat \<Rightarrow> nat \<Rightarrow> occ_sensor list \<Rightarrow> fault + (occ_sensor list \<times> nat)" where
  "sensor_loop d len n s dnum arr =
     (if s < n then
        (case rd d dnum of
           Inl f \<Rightarrow> Inl f
         | Inr c0 \<Rightarrow>
             if length arr \<le> s then Inl (BadIndex (int s))
             else
               (case rds d [dnum + 1, dnum + 2, dnum + 3] of
                  Inl f \<Rightarrow> Inl f
                | Inr c \<Rightarrow>
                    sensor_loop d len n (s + 1) (dnum + len)
                      (arr[s := \<lparr>sensor_id = be16 c0 (c ! 0),
                                 sensor_value = be16 (c ! 1) (c ! 2)\<rparr>])))
      else Inr (arr, dnum))"
  by pat_completeness auto
termination
  by (relation "measure (\<lambda>(d, len, n, s, dnum, arr). n - s)") auto

declare sensor_loop.simps [simp del]

text \<open>
  Lines 389--407: the record loop of a POWR block. \<open>arr\<close> is the array behind
  \<^verbatim>\<open>blocks[b].powr\<close>. After the fields of record \<open>s\<close> are stored, the \<^verbatim>\<open>printk\<close> of lines
  403--404 reads \<^verbatim>\<open>blocks[b].sensor[s].sensor_id\<close> and \<^verbatim>\<open>.value\<close>, that is, through the
  block's \<^verbatim>\<open>sensor\<close> pointer \<open>sp\<close>.
\<close>

function powr_loop ::
  "byte list \<Rightarrow> nat \<Rightarrow> nat \<Rightarrow> nat \<Rightarrow> nat \<Rightarrow> occ_sensor list option \<Rightarrow> powr_sensor list
     \<Rightarrow> fault + (powr_sensor list \<times> nat)" where
  "powr_loop d len n s dnum sp arr =
     (if s < n then
        (case rd d dnum of
           Inl f \<Rightarrow> Inl f
         | Inr c0 \<Rightarrow>
             if length arr \<le> s then Inl (BadIndex (int s))
             else
               (case rds d [dnum + 1, dnum + 2, dnum + 3, dnum + 4, dnum + 5, dnum + 6,
                            dnum + 7, dnum + 8, dnum + 9, dnum + 10, dnum + 11] of
                  Inl f \<Rightarrow> Inl f
                | Inr c \<Rightarrow>
                    (case sp of
                       None \<Rightarrow> Inl NullDeref
                     | Some sarr \<Rightarrow>
                         if length sarr \<le> s then Inl (BadIndex (int s))
                         else
                           powr_loop d len n (s + 1) (dnum + len) sp
                             (arr[s := \<lparr>powr_sensor_id = be16 c0 (c ! 0),
                                        update_tag = be32 (c ! 1) (c ! 2) (c ! 3) (c ! 4),
                                        accumulator = be32 (c ! 5) (c ! 6) (c ! 7) (c ! 8),
                                        powr_value = be16 (c ! 9) (c ! 10)\<rparr>]))))
      else Inr (arr, dnum))"
  by pat_completeness auto
termination
  by (relation "measure (\<lambda>(d, len, n, s, dnum, sp, arr). n - s)") auto

declare powr_loop.simps [simp del]

text \<open>The element \<^verbatim>\<open>o->data.blocks[b]\<close>, read and written.\<close>

definition get_block :: "occ_response_t \<Rightarrow> nat \<Rightarrow> fault + sensor_data_block" where
  "get_block r b =
     (case blocks (data r) of
        None \<Rightarrow> Inl NullDeref
      | Some bl \<Rightarrow> if b < length bl then Inr (bl ! b) else Inl (BadIndex (int b)))"

definition set_block :: "occ_response_t \<Rightarrow> nat \<Rightarrow> sensor_data_block \<Rightarrow> occ_response_t" where
  "set_block r b blk =
     r\<lparr>data := (data r)\<lparr>blocks := map_option (\<lambda>bl. bl[b := blk]) (blocks (data r))\<rparr>\<rparr>"

text \<open>
  One pass through the body of the block loop (lines 320--415) for block \<open>b\<close> at cursor
  \<open>dnum\<close>. \<open>Next\<close> is the end of the body or a \<^verbatim>\<open>continue\<close>, with the cursor for the next
  block; \<open>Stop\<close> is \<^verbatim>\<open>goto abort\<close>, after \<^verbatim>\<open>deinit_occ_resp_buf\<close> has run, with the value
  returned.
\<close>

datatype step =
    Next nat kmem occ_response_t
  | Stop int kmem occ_response_t

definition abort :: "int \<Rightarrow> kmem \<Rightarrow> occ_response_t \<Rightarrow> fault + step" where
  "abort ret m r =
     (case deinit_occ_resp_buf m r of
        Inl f \<Rightarrow> Inl f
      | Inr (x, m1, r1) \<Rightarrow> Inr (Stop ret m1 r1))"

definition parse_block :: "byte list \<Rightarrow> nat \<Rightarrow> nat \<Rightarrow> kmem \<Rightarrow> occ_response_t \<Rightarrow> fault + step" where
  "parse_block d b dnum m r =
     (case strncpy d dnum 4 of
        Inl f \<Rightarrow> Inl f
      | Inr ty \<Rightarrow>
     (case get_block r b of
        Inl f \<Rightarrow> Inl f
      | Inr blk0 \<Rightarrow>
     (case rds d [dnum + 4, dnum + 5, dnum + 6, dnum + 7] of
        Inl f \<Rightarrow> Inl f
      | Inr c \<Rightarrow>
          let blk = blk0\<lparr>sensor_type := ty @ drop 4 (sensor_type blk0),
                         block_reserved0 := c ! 0, sensor_format := c ! 1,
                         sensor_length := c ! 2, num_of_sensors := c ! 3\<rparr>;
              r1 = set_block r b blk;
              dnum1 = dnum + 8
          in
            if unat (num_of_sensors blk) \<le> 0 then Inr (Next dnum1 m r1)
            else if sensor_length blk = 0 then Inr (Next dnum1 m r1)
            else if strcmp_eq (sensor_type blk) str_FREQ then
              (case kzalloc_sensors (unat (num_of_sensors blk)) m of
                 (None, m1) \<Rightarrow> abort (- ENOMEM) m1 (set_block r b (blk\<lparr>sensor := None\<rparr>))
               | (Some arr, m1) \<Rightarrow>
                   (case sensor_loop d (unat (sensor_length blk)) (unat (num_of_sensors blk))
                           0 dnum1 arr of
                      Inl f \<Rightarrow> Inl f
                    | Inr (arr1, dnum2) \<Rightarrow>
                        Inr (Next dnum2 m1
                          ((set_block r b (blk\<lparr>sensor := Some arr1\<rparr>))
                             \<lparr>freq_block_id := of_nat b\<rparr>))))
            else if strcmp_eq (sensor_type blk) str_TEMP then
              (case kzalloc_sensors (unat (num_of_sensors blk)) m of
                 (None, m1) \<Rightarrow> abort (- ENOMEM) m1 (set_block r b (blk\<lparr>sensor := None\<rparr>))
               | (Some arr, m1) \<Rightarrow>
                   (case sensor_loop d (unat (sensor_length blk)) (unat (num_of_sensors blk))
                           0 dnum1 arr of
                      Inl f \<Rightarrow> Inl f
                    | Inr (arr1, dnum2) \<Rightarrow>
                        Inr (Next dnum2 m1
                          ((set_block r b (blk\<lparr>sensor := Some arr1\<rparr>))
                             \<lparr>temp_block_id := of_nat b\<rparr>))))
            else if strcmp_eq (sensor_type blk) str_POWR then
              (case kzalloc_powrs (unat (num_of_sensors blk)) m of
                 (None, m1) \<Rightarrow> abort (- ENOMEM) m1 (set_block r b (blk\<lparr>powr := None\<rparr>))
               | (Some arr, m1) \<Rightarrow>
                   (case powr_loop d (unat (sensor_length blk)) (unat (num_of_sensors blk))
                           0 dnum1 (sensor blk) arr of
                      Inl f \<Rightarrow> Inl f
                    | Inr (arr1, dnum2) \<Rightarrow>
                        Inr (Next dnum2 m1
                          ((set_block r b (blk\<lparr>powr := Some arr1\<rparr>))
                             \<lparr>power_block_id := of_nat b\<rparr>))))
            else Inr (Next dnum1 m r1))))"

text \<open>The block loop of line 319, from block \<open>b\<close> at cursor \<open>dnum\<close>, up to \<^verbatim>\<open>return ret\<close>.\<close>

function block_loop ::
  "byte list \<Rightarrow> nat \<Rightarrow> nat \<Rightarrow> kmem \<Rightarrow> occ_response_t \<Rightarrow> fault + (int \<times> kmem \<times> occ_response_t)" where
  "block_loop d b dnum m r =
     (if b < unat (num_of_sensor_blocks (data r)) then
        (case parse_block d b dnum m r of
           Inl f \<Rightarrow> Inl f
         | Inr (Stop ret m1 r1) \<Rightarrow> Inr (ret, m1, r1)
         | Inr (Next dnum1 m1 r1) \<Rightarrow> block_loop d (b + 1) dnum1 m1 r1)
      else Inr (0, m, r))"
  by pat_completeness auto
termination
proof (relation "measure (\<lambda>(d, b, dnum, m, r). unat (num_of_sensor_blocks (data r)) - b)")
  show "wf (measure (\<lambda>(d, b, dnum, m, r). unat (num_of_sensor_blocks (data r)) - b))"
    by simp
next
  fix d :: "byte list" and b dnum :: nat and m :: kmem and r :: occ_response_t
    and x2 :: step and dnum1 :: nat and m1 :: kmem and r1 :: occ_response_t
  assume lt: "b < unat (num_of_sensor_blocks (data r))"
    and pb: "parse_block d b dnum m r = Inr x2" and x2: "x2 = Next dnum1 m1 r1"
  have "num_of_sensor_blocks (data r1) = num_of_sensor_blocks (data r)"
    using pb x2
    by (auto simp: parse_block_def set_block_def abort_def Let_def
        split: sum.splits prod.splits option.splits if_splits)
  with lt
  show "((d, b + 1, dnum1, m1, r1), d, b, dnum, m, r)
        \<in> measure (\<lambda>(d, b, dnum, m, r). unat (num_of_sensor_blocks (data r)) - b)"
    by simp
qed

declare block_loop.simps [simp del]

definition parse_occ_response ::
  "byte list \<Rightarrow> kmem \<Rightarrow> occ_response_t \<Rightarrow> fault + (int \<times> kmem \<times> occ_response_t)" where
  "parse_occ_response d m r =
     (case parse_header d r of
        Inl f \<Rightarrow> Inl f
      | Inr r1 \<Rightarrow>
          if \<not> strcmp_eq (sensor_eye_catcher (data r1)) str_SENSOR then Inr (- 1, m, r1)
          else if num_of_sensor_blocks (data r1) = 0 then Inr (- 1, m, r1)
          else
            (case kzalloc_blocks (unat (num_of_sensor_blocks (data r1))) m of
               (bp, m1) \<Rightarrow>
                 let r2 = r1\<lparr>data := (data r1)\<lparr>blocks := bp\<rparr>\<rparr>
                 in if bp = None then Inr (- ENOMEM, m1, r2)
                    else block_loop d 0 45 m1 r2))"

subsection \<open>Closed forms used in the statements\<close>

text \<open>
  The record of a FREQ or TEMP block decoded from the window that starts at offset \<open>off\<close>:
  a big-endian 16-bit id at \<open>off\<close> and a big-endian 16-bit value at \<open>off + 2\<close>.
\<close>

definition value_record :: "byte list \<Rightarrow> nat \<Rightarrow> occ_sensor" where
  "value_record d off =
     \<lparr>sensor_id = be16 (d ! off) (d ! (off + 1)),
      sensor_value = be16 (d ! (off + 2)) (d ! (off + 3))\<rparr>"

text \<open>
  The block structure \<open>blk0\<close> after lines 321--325 have stored the descriptor at offset
  \<open>dnum\<close> in it, for a descriptor that lies inside the buffer.
\<close>

definition block_head :: "byte list \<Rightarrow> nat \<Rightarrow> sensor_data_block \<Rightarrow> sensor_data_block" where
  "block_head d dnum blk0 =
     blk0\<lparr>sensor_type := strn (take 4 (drop dnum d)) @ drop 4 (sensor_type blk0),
          block_reserved0 := d ! (dnum + 4), sensor_format := d ! (dnum + 5),
          sensor_length := d ! (dnum + 6), num_of_sensors := d ! (dnum + 7)\<rparr>"

subsection \<open>\<^verbatim>\<open>occ_get_all\<close>, \<^verbatim>\<open>occ_update_device\<close> and the temperature attributes\<close>

text \<open>
  \<^verbatim>\<open>occ_get_all\<close> overwrites \<^verbatim>\<open>occ_data\<close> with the 4096 bytes of the global array
  \<^verbatim>\<open>fake_occ_rsp\<close> (line 454) before it reads the length, and again (line 470) before it
  parses: what the bus transfers wrote into \<^verbatim>\<open>occ_data\<close> is never read. The contents
  \<open>fake\<close> of the global array are the input of the model.
\<close>

definition occ_get_all ::
  "byte list \<Rightarrow> kmem \<Rightarrow> occ_response_t \<Rightarrow> fault + (int \<times> kmem \<times> occ_response_t)" where
  "occ_get_all fake m r =
     (let occ_data = fake in
      case get_occdata_length occ_data of
        Inl f \<Rightarrow> Inl f
      | Inr num_bytes \<Rightarrow>
          if unat num_bytes > OCC_DATA_MAX then Inr (- 1, m, r)
          else parse_occ_response occ_data m r)"

text \<open>
  The driver data of a client. \<open>expired\<close> stands for the value of the kernel macro
  \<^verbatim>\<open>time_after(jiffies, data->last_updated + data->sample_time)\<close>.
\<close>

record occ_drv_data =
  valid :: bool
  last_updated :: nat
  sample_time :: nat
  occ_resp :: occ_response_t

definition occ_update_device ::
  "bool \<Rightarrow> nat \<Rightarrow> byte list \<Rightarrow> kmem \<Rightarrow> occ_drv_data \<Rightarrow> fault + (int \<times> kmem \<times> occ_drv_data)" where
  "occ_update_device expired jiffies fake m dd =
     (if expired \<or> \<not> valid dd then
        (case deinit_occ_resp_buf m (occ_resp dd) of
           Inl f \<Rightarrow> Inl f
         | Inr (x, m1, r1) \<Rightarrow>
             (case occ_get_all fake m1 r1 of
                Inl f \<Rightarrow> Inl f
              | Inr (ret, m2, r2) \<Rightarrow>
                  Inr (ret, m2, dd\<lparr>occ_resp := r2, last_updated := jiffies, valid := True\<rparr>)))
      else Inr (0, m, dd))"

text \<open>
  Lines 619 and 645: \<^verbatim>\<open>&data->occ_resp->data.blocks[temp_block_id].sensor[n - 1]\<close>, and the
  read of a field of that element.
\<close>

definition temp_sensor :: "occ_response_t \<Rightarrow> int \<Rightarrow> fault + occ_sensor" where
  "temp_sensor r n =
     (case blocks (data r) of
        None \<Rightarrow> Inl NullDeref
      | Some bl \<Rightarrow>
          if length bl \<le> unat (temp_block_id r) then Inl (BadIndex (uint (temp_block_id r)))
          else
            (case sensor (bl ! unat (temp_block_id r)) of
               None \<Rightarrow> Inl NullDeref
             | Some arr \<Rightarrow>
                 if n - 1 < 0 \<or> int (length arr) \<le> n - 1 then Inl (BadIndex (n - 1))
                 else Inr (arr ! nat (n - 1))))"

text \<open>
  The text that the conversion \<^verbatim>\<open>%d\<close> produces for a C \<^verbatim>\<open>int\<close>: its decimal digits, after
  a minus sign when it is negative.
\<close>

fun dec_digits :: "nat \<Rightarrow> byte list" where
  "dec_digits n =
     (if n < 10 then [of_nat (48 + n)]
      else dec_digits (n div 10) @ [of_nat (48 + n mod 10)])"

declare dec_digits.simps [simp del]

definition format_d :: "int \<Rightarrow> byte list" where
  "format_d v = (if v < 0 then 0x2d # dec_digits (nat (- v)) else dec_digits (nat v))"

text \<open>The literal \<^verbatim>\<open>"sensor id: "\<close> of the format string of line 650.\<close>

definition str_sensor_id :: "byte list" where
  "str_sensor_id = [0x73, 0x65, 0x6e, 0x73, 0x6f, 0x72, 0x20, 0x69, 0x64, 0x3a, 0x20]"

text \<open>
  \<^verbatim>\<open>sprintf(buf, ...)\<close> for the formatted \<open>text\<close>: the text and a terminating NUL are written
  at the start of \<open>buf\<close>, the result is the number of characters without the NUL and the
  buffer after the call. \<^verbatim>\<open>sprintf\<close> receives no size: a buffer shorter than the text and
  its NUL is written past its end.
\<close>

definition sprintf :: "byte list \<Rightarrow> byte list \<Rightarrow> fault + (int \<times> byte list)" where
  "sprintf buf text =
     (if length buf < length text + 1 then Inl (OOBWrite (length buf))
      else Inr (int (length text), text @ 0 # drop (length text + 1) buf))"

text \<open>
  The attribute functions (lines 600--651). The result of \<^verbatim>\<open>occ_update_device\<close> is ignored
  (the \<^verbatim>\<open>if (ret != 0);\<close> of lines 611 and 638). \<^verbatim>\<open>val\<close> is the field of the element
  converted to \<^verbatim>\<open>int\<close>; \<^verbatim>\<open>show_occ_temp\<close> returns \<^verbatim>\<open>sprintf(buf, "%d\n", val)\<close> and
  \<^verbatim>\<open>show_occ_temp_label\<close> returns \<^verbatim>\<open>sprintf(buf, "sensor id: %d\n", val)\<close>: the model
  yields that return value, the contents of \<open>buf\<close> after the call, the allocator and the
  driver data.
\<close>

definition show_occ_temp ::
  "bool \<Rightarrow> nat \<Rightarrow> byte list \<Rightarrow> kmem \<Rightarrow> occ_drv_data \<Rightarrow> byte list \<Rightarrow> int
     \<Rightarrow> fault + (int \<times> byte list \<times> kmem \<times> occ_drv_data)" where
  "show_occ_temp expired jiffies fake m dd buf n =
     (case occ_update_device expired jiffies fake m dd of
        Inl f \<Rightarrow> Inl f
      | Inr (ret, m1, dd1) \<Rightarrow>
          (case temp_sensor (occ_resp dd1) n of
             Inl f \<Rightarrow> Inl f
           | Inr sen \<Rightarrow>
               (case sprintf buf (format_d (uint (sensor_value sen)) @ [0x0a]) of
                  Inl f \<Rightarrow> Inl f
                | Inr (cnt, buf1) \<Rightarrow> Inr (cnt, buf1, m1, dd1))))"

definition show_occ_temp_label ::
  "bool \<Rightarrow> nat \<Rightarrow> byte list \<Rightarrow> kmem \<Rightarrow> occ_drv_data \<Rightarrow> byte list \<Rightarrow> int
     \<Rightarrow> fault + (int \<times> byte list \<times> kmem \<times> occ_drv_data)" where
  "show_occ_temp_label expired jiffies fake m dd buf n =
     (case occ_update_device expired jiffies fake m dd of
        Inl f \<Rightarrow> Inl f
      | Inr (ret, m1, dd1) \<Rightarrow>
          (case temp_sensor (occ_resp dd1) n of
             Inl f \<Rightarrow> Inl f
           | Inr sen \<Rightarrow>
               (case sprintf buf (str_sensor_id @ format_d (uint (sensor_id sen)) @ [0x0a]) of
                  Inl f \<Rightarrow> Inl f
                | Inr (cnt, buf1) \<Rightarrow> Inr (cnt, buf1, m1, dd1))))"

subsection \<open>The sample response \<^verbatim>\<open>fake_occ_rsp\<close>\<close>

text \<open>
  A \<^verbatim>\<open>char\<close> array of \<open>OCC_DATA_MAX\<close> bytes with the initialiser \<open>init\<close>: C fills the rest
  with zeros.
\<close>

definition occ_buffer :: "byte list \<Rightarrow> byte list" where
  "occ_buffer init = init @ replicate (OCC_DATA_MAX - length init) 0"

text \<open>The 171 bytes of the initialiser of \<^verbatim>\<open>fake_occ_rsp\<close> (lines 425--435).\<close>

definition fake_occ_rsp_init :: "byte list" where
  "fake_occ_rsp_init =
     [0x69, 0x00, 0x00, 0x00, 0xa4, 0xc3, 0x00, 0x03, 0x00, 0x01, 0x00, 0x00, 0x00, 0x00, 0x00, 0x00,
      0x00, 0x00, 0x00, 0x00, 0x00, 0x6f, 0x70, 0x5f, 0x6f, 0x63, 0x63, 0x5f, 0x31, 0x35, 0x30, 0x37,
      0x31, 0x36, 0x61, 0x00, 0x00, 0x53, 0x45, 0x4e, 0x53, 0x4f, 0x52, 0x04, 0x01, 0x54, 0x45, 0x4d,
      0x50, 0x00, 0x01, 0x04, 0x0a, 0x00, 0x6a, 0x00, 0x00, 0x00, 0x6c, 0x00, 0x00, 0x00, 0x6d, 0x00,
      0x00, 0x00, 0x6e, 0x00, 0x00, 0x00, 0x6f, 0x00, 0x00, 0x00, 0x70, 0x00, 0x00, 0x00, 0x71, 0x00,
      0x00, 0x00, 0x73, 0x00, 0x00, 0x00, 0x74, 0x00, 0x00, 0x00, 0x75, 0x00, 0x00, 0x46, 0x52, 0x45,
      0x51, 0x00, 0x01, 0x04, 0x0a, 0x00, 0x76, 0x00, 0x00, 0x00, 0x78, 0x00, 0x00, 0x00, 0x79, 0x00,
      0x00, 0x00, 0x7a, 0x00, 0x00, 0x00, 0x7b, 0x00, 0x00, 0x00, 0x7c, 0x00, 0x00, 0x00, 0x7d, 0x00,
      0x00, 0x00, 0x7f, 0x00, 0x00, 0x00, 0x80, 0x00, 0x00, 0x00, 0x81, 0x00, 0x00, 0x50, 0x4f, 0x57,
      0x52, 0x00, 0x01, 0x0c, 0x00, 0x43, 0x41, 0x50, 0x53, 0x00, 0x01, 0x0c, 0x01, 0x00, 0x00, 0x00,
      0x00, 0x04, 0xb0, 0x09, 0x60, 0x04, 0x4c, 0x00, 0x00, 0x17, 0xc5]"

definition fake_occ_rsp :: "byte list" where
  "fake_occ_rsp = occ_buffer fake_occ_rsp_init"

text \<open>The tag of the fourth block of the sample.\<close>

definition str_CAPS :: "byte list" where
  "str_CAPS = [0x43, 0x41, 0x50, 0x53]"

text \<open>An allocator in which nothing is allocated and every \<^verbatim>\<open>kzalloc\<close> succeeds.\<close>

definition kmem_ok :: kmem where
  "kmem_ok = \<lparr>alloc_ok = (\<lambda>k. True), kcalls = 0, live_block_arrays = 0,
     live_sensor_arrays = 0, live_powr_arrays = 0\<rparr>"

subsection \<open>Test frames\<close>

text \<open>
  A test frame: a TEMP block of two records at stride 4, a FREQ block that declares no
  records, and a TEMP block of two records at stride 6. \<open>sandwich_r1\<close> and \<open>sandwich_m1\<close> are
  the response and the allocator after its first block, \<open>sandwich_B0\<close> to \<open>sandwich_B2\<close> the
  three decoded blocks.
\<close>

definition sandwich_init :: "byte list" where
  "sandwich_init =
     [0x00, 0x00, 0x00, 0x00, 0x00, 0x00, 0x00, 0x00, 0x00, 0x00, 0x00, 0x00, 0x00, 0x00, 0x00, 0x00,
      0x00, 0x00, 0x00, 0x00, 0x00, 0x00, 0x00, 0x00, 0x00, 0x00, 0x00, 0x00, 0x00, 0x00, 0x00, 0x00,
      0x00, 0x00, 0x00, 0x00, 0x00, 0x53, 0x45, 0x4e, 0x53, 0x4f, 0x52, 0x03, 0x01, 0x54, 0x45, 0x4d,
      0x50, 0x00, 0x01, 0x04, 0x02, 0x00, 0x6a, 0x00, 0x11, 0x00, 0x6c, 0x00, 0x12, 0x46, 0x52, 0x45,
      0x51, 0x00, 0x01, 0x04, 0x00, 0x54, 0x45, 0x4d, 0x50, 0x00, 0x01, 0x06, 0x02, 0x00, 0x6d, 0x00,
      0x13, 0x7e, 0x7e, 0x00, 0x6e, 0x00, 0x14, 0x7e, 0x7e]"

definition sandwich_B0 :: sensor_data_block where
  "sandwich_B0 = \<lparr>sensor_type = [0x54, 0x45, 0x4d, 0x50, 0], block_reserved0 = 0, sensor_format = 1,
               sensor_length = 4, num_of_sensors = 2,
               sensor = Some [\<lparr>sensor_id = 0x6a, sensor_value = 0x11\<rparr>,
                              \<lparr>sensor_id = 0x6c, sensor_value = 0x12\<rparr>],
               powr = None\<rparr>"

definition sandwich_B1 :: sensor_data_block where
  "sandwich_B1 = \<lparr>sensor_type = [0x46, 0x52, 0x45, 0x51, 0], block_reserved0 = 0, sensor_format = 1,
               sensor_length = 4, num_of_sensors = 0, sensor = None, powr = None\<rparr>"

definition sandwich_B2 :: sensor_data_block where
  "sandwich_B2 = \<lparr>sensor_type = [0x54, 0x45, 0x4d, 0x50, 0], block_reserved0 = 0, sensor_format = 1,
               sensor_length = 6, num_of_sensors = 2,
               sensor = Some [\<lparr>sensor_id = 0x6d, sensor_value = 0x13\<rparr>,
                              \<lparr>sensor_id = 0x6e, sensor_value = 0x14\<rparr>],
               powr = None\<rparr>"

definition sandwich_hdr :: occ_poll_data where
  "sandwich_hdr = zero_poll_data\<lparr>sensor_eye_catcher := [0x53, 0x45, 0x4e, 0x53, 0x4f, 0x52, 0],
                num_of_sensor_blocks := 3, sensor_data_version := 1\<rparr>"

definition sandwich_r1 :: occ_response_t where
  "sandwich_r1 = zero_resp\<lparr>data := sandwich_hdr\<lparr>blocks := Some [sandwich_B0, zero_block, zero_block]\<rparr>\<rparr>"

definition sandwich_m1 :: kmem where
  "sandwich_m1 = kmem_ok\<lparr>kcalls := 2, live_block_arrays := 1, live_sensor_arrays := 1\<rparr>"

text \<open>
  A test frame: a TEMP block of one record and a POWR block of one record at stride 12.
  \<open>powr_r1\<close> and \<open>powr_m1\<close> are the response and the allocator after its first block.
\<close>

definition powr_init :: "byte list" where
  "powr_init =
     [0x00, 0x00, 0x00, 0x00, 0x00, 0x00, 0x00, 0x00, 0x00, 0x00, 0x00, 0x00, 0x00, 0x00, 0x00, 0x00,
      0x00, 0x00, 0x00, 0x00, 0x00, 0x00, 0x00, 0x00, 0x00, 0x00, 0x00, 0x00, 0x00, 0x00, 0x00, 0x00,
      0x00, 0x00, 0x00, 0x00, 0x00, 0x53, 0x45, 0x4e, 0x53, 0x4f, 0x52, 0x02, 0x01, 0x54, 0x45, 0x4d,
      0x50, 0x00, 0x01, 0x04, 0x01, 0x00, 0x6a, 0x00, 0x11, 0x50, 0x4f, 0x57, 0x52, 0x00, 0x01, 0x0c,
      0x01, 0x00, 0x01, 0x00, 0x00, 0x00, 0x02, 0x00, 0x00, 0x00, 0x03, 0x00, 0x04]"

definition powr_r1 :: occ_response_t where
  "powr_r1 = zero_resp\<lparr>data := zero_poll_data
     \<lparr>sensor_eye_catcher := [0x53, 0x45, 0x4e, 0x53, 0x4f, 0x52, 0],
      num_of_sensor_blocks := 2, sensor_data_version := 1,
      blocks := Some
        [\<lparr>sensor_type = [0x54, 0x45, 0x4d, 0x50, 0], block_reserved0 = 0, sensor_format = 1,
          sensor_length = 4, num_of_sensors = 1,
          sensor = Some [\<lparr>sensor_id = 0x6a, sensor_value = 0x11\<rparr>], powr = None\<rparr>,
         zero_block]\<rparr>\<rparr>"

definition powr_m1 :: kmem where
  "powr_m1 = kmem_ok\<lparr>kcalls := 2, live_block_arrays := 1, live_sensor_arrays := 1\<rparr>"

text \<open>A test frame whose only block is a POWR block of two records at stride 12.\<close>

definition powr2_init :: "byte list" where
  "powr2_init =
     [0x00, 0x00, 0x00, 0x00, 0x00, 0x00, 0x00, 0x00, 0x00, 0x00, 0x00, 0x00, 0x00, 0x00, 0x00, 0x00,
      0x00, 0x00, 0x00, 0x00, 0x00, 0x00, 0x00, 0x00, 0x00, 0x00, 0x00, 0x00, 0x00, 0x00, 0x00, 0x00,
      0x00, 0x00, 0x00, 0x00, 0x00, 0x53, 0x45, 0x4e, 0x53, 0x4f, 0x52, 0x01, 0x01, 0x50, 0x4f, 0x57,
      0x52, 0x00, 0x01, 0x0c, 0x02, 0x00, 0x01, 0x00, 0x00, 0x00, 0x02, 0x00, 0x00, 0x00, 0x03, 0x00,
      0x04, 0x00, 0x05, 0x00, 0x00, 0x00, 0x06, 0x00, 0x00, 0x00, 0x07, 0x00, 0x08]"

text \<open>
  A test frame: a block tagged FOOX that declares one record at stride 4, its four body
  bytes, and a TEMP block of one record.
\<close>

definition foox_init :: "byte list" where
  "foox_init =
     [0x00, 0x00, 0x00, 0x00, 0x00, 0x00, 0x00, 0x00, 0x00, 0x00, 0x00, 0x00, 0x00, 0x00, 0x00, 0x00,
      0x00, 0x00, 0x00, 0x00, 0x00, 0x00, 0x00, 0x00, 0x00, 0x00, 0x00, 0x00, 0x00, 0x00, 0x00, 0x00,
      0x00, 0x00, 0x00, 0x00, 0x00, 0x53, 0x45, 0x4e, 0x53, 0x4f, 0x52, 0x02, 0x01, 0x46, 0x4f, 0x4f,
      0x58, 0x00, 0x01, 0x04, 0x01, 0x00, 0x11, 0x00, 0x22, 0x54, 0x45, 0x4d, 0x50, 0x00, 0x01, 0x04,
      0x01, 0x00, 0x6a, 0x00, 0x01]"

text \<open>
  The driver data before the first update: no valid data, a zeroed \<^verbatim>\<open>occ_resp\<close>.
\<close>

definition drv_init :: occ_drv_data where
  "drv_init = \<lparr>valid = False, last_updated = 0, sample_time = 0, occ_resp = zero_resp\<rparr>"

subsection \<open>Buffers that hold the whole frame\<close>

text \<open>
  The buffer holds every descriptor and record window that the block loop reaches when it
  walks \<open>k\<close> blocks from cursor \<open>dnum\<close>: the 8 descriptor bytes; for a FREQ or TEMP block with
  records, the 4 bytes of its last record (and so of all records); for a POWR block with
  records, the 12 bytes of record 0, where the walk ends. The cursor moves as lines 326,
  355, 377 and 406 move it.
\<close>

fun blocks_in_bounds :: "byte list \<Rightarrow> nat \<Rightarrow> nat \<Rightarrow> bool" where
  "blocks_in_bounds d 0 dnum = True"
| "blocks_in_bounds d (Suc k) dnum =
     (dnum + 8 \<le> length d \<and>
      (let len = unat (d ! (dnum + 6)); n = unat (d ! (dnum + 7)); tag = take 4 (drop dnum d)
       in if n = 0 \<or> len = 0 then blocks_in_bounds d k (dnum + 8)
          else if tag = str_FREQ \<or> tag = str_TEMP then
            dnum + 8 + (n - 1) * len + 4 \<le> length d
            \<and> blocks_in_bounds d k (dnum + 8 + n * len)
          else if tag = str_POWR then dnum + 20 \<le> length d
          else blocks_in_bounds d k (dnum + 8)))"

text \<open>
  The buffer holds the fixed header and, when the marker is \<open>SENSOR\<close>, everything the block
  loop reaches for the block count \<^verbatim>\<open>d[43]\<close>.
\<close>

definition frame_in_bounds :: "byte list \<Rightarrow> bool" where
  "frame_in_bounds d =
     (45 \<le> length d
      \<and> (if take 6 (drop 37 d) = str_SENSOR then blocks_in_bounds d (unat (d ! 43)) 45
         else True))"

text \<open>
  A test frame: one TEMP block that declares 255 records at stride 255.
\<close>

definition oob_init :: "byte list" where
  "oob_init =
     [0x00, 0x00, 0x00, 0x00, 0x00, 0x00, 0x00, 0x00, 0x00, 0x00, 0x00, 0x00, 0x00, 0x00, 0x00, 0x00,
      0x00, 0x00, 0x00, 0x00, 0x00, 0x00, 0x00, 0x00, 0x00, 0x00, 0x00, 0x00, 0x00, 0x00, 0x00, 0x00,
      0x00, 0x00, 0x00, 0x00, 0x00, 0x53, 0x45, 0x4e, 0x53, 0x4f, 0x52, 0x01, 0x01, 0x54, 0x45, 0x4d,
      0x50, 0x00, 0x01, 0xff, 0xff]"

subsection \<open>The decoded sample\<close>

text \<open>
  The response and the allocator that the decode of the sample \<^verbatim>\<open>fake_occ_rsp\<close> produces from a
  zeroed structure and the allocator \<open>kmem_ok\<close>.
\<close>

definition sample_resp :: occ_response_t where
  "sample_resp =
     \<lparr>sequence_num = 0x69, cmd_type = 0, rtn_status = 0, data_length = 0xa4,
      data =
        \<lparr>status = 0xc3, ext_status = 0, occs_present = 3, config = 0, occ_state = 1,
         reserved0 = 0, reserved1 = 0, error_log_id = 0, error_log_addr_start = 0,
         error_log_length = 0, reserved2 = 0, reserved3 = 0,
         occ_code_level = [0x6f, 0x70, 0x5f, 0x6f, 0x63, 0x63, 0x5f, 0x31, 0x35, 0x30,
                           0x37, 0x31, 0x36, 0x61, 0, 0, 0],
         sensor_eye_catcher = [0x53, 0x45, 0x4e, 0x53, 0x4f, 0x52, 0],
         num_of_sensor_blocks = 4, sensor_data_version = 1,
         blocks = Some
          [\<lparr>sensor_type = [0x54, 0x45, 0x4d, 0x50, 0], block_reserved0 = 0, sensor_format = 1,
            sensor_length = 4, num_of_sensors = 10,
            sensor = Some
              [\<lparr>sensor_id = 0x6a, sensor_value = 0\<rparr>, \<lparr>sensor_id = 0x6c, sensor_value = 0\<rparr>,
               \<lparr>sensor_id = 0x6d, sensor_value = 0\<rparr>, \<lparr>sensor_id = 0x6e, sensor_value = 0\<rparr>,
               \<lparr>sensor_id = 0x6f, sensor_value = 0\<rparr>, \<lparr>sensor_id = 0x70, sensor_value = 0\<rparr>,
               \<lparr>sensor_id = 0x71, sensor_value = 0\<rparr>, \<lparr>sensor_id = 0x73, sensor_value = 0\<rparr>,
               \<lparr>sensor_id = 0x74, sensor_value = 0\<rparr>, \<lparr>sensor_id = 0x75, sensor_value = 0\<rparr>],
            powr = None\<rparr>,
           \<lparr>sensor_type = [0x46, 0x52, 0x45, 0x51, 0], block_reserved0 = 0, sensor_format = 1,
            sensor_length = 4, num_of_sensors = 10,
            sensor = Some
              [\<lparr>sensor_id = 0x76, sensor_value = 0\<rparr>, \<lparr>sensor_id = 0x78, sensor_value = 0\<rparr>,
               \<lparr>sensor_id = 0x79, sensor_value = 0\<rparr>, \<lparr>sensor_id = 0x7a, sensor_value = 0\<rparr>,
               \<lparr>sensor_id = 0x7b, sensor_value = 0\<rparr>, \<lparr>sensor_id = 0x7c, sensor_value = 0\<rparr>,
               \<lparr>sensor_id = 0x7d, sensor_value = 0\<rparr>, \<lparr>sensor_id = 0x7f, sensor_value = 0\<rparr>,
               \<lparr>sensor_id = 0x80, sensor_value = 0\<rparr>, \<lparr>sensor_id = 0x81, sensor_value = 0\<rparr>],
            powr = None\<rparr>,
           \<lparr>sensor_type = [0x50, 0x4f, 0x57, 0x52, 0], block_reserved0 = 0, sensor_format = 1,
            sensor_length = 12, num_of_sensors = 0, sensor = None, powr = None\<rparr>,
           \<lparr>sensor_type = [0x43, 0x41, 0x50, 0x53, 0], block_reserved0 = 0, sensor_format = 1,
            sensor_length = 12, num_of_sensors = 1, sensor = None, powr = None\<rparr>]\<rparr>,
      chk_sum = 0, temp_block_id = 0, freq_block_id = 1, power_block_id = 0\<rparr>"

definition sample_mem :: kmem where
  "sample_mem = kmem_ok\<lparr>kcalls := 3, live_block_arrays := 1, live_sensor_arrays := 2\<rparr>"

section \<open>Properties\<close>

subsection \<open>Reads, strings and the header\<close>

lemma unat_be16: "unat (be16 a b) = 256 * unat a + unat b"
proof -
  have disj: "push_bit 8 (ucast a :: u16) OR ucast b = push_bit 8 (ucast a) + ucast b"
    by (rule disjunctive_add [symmetric]) (auto simp: bit_simps dest: bit_imp_le_length)
  have a: "unat a < 256" and b: "unat b < 256"
    using unsigned_less [of a] unsigned_less [of b] by simp_all
  have ua: "unat (ucast a :: u16) = unat a" and ub: "unat (ucast b :: u16) = unat b"
    using a b by (simp_all add: unsigned_ucast_eq take_bit_eq_mod)
  have "unat (push_bit 8 (ucast a :: u16) + ucast b) = 256 * unat a + unat b"
    using a b
    by (simp add: unat_word_ariths unsigned_push_bit_eq ua ub take_bit_eq_mod push_bit_eq_mult)
  then show ?thesis by (simp add: be16_def disj)
qed

lemma rd_in_bounds: "i < length d \<Longrightarrow> rd d i = Inr (d ! i)"
  by (simp add: rd_def)

lemma rd_out_of_bounds: "length d \<le> i \<Longrightarrow> rd d i = Inl (OOBRead i)"
  by (simp add: rd_def)

lemma rds_in_bounds: "\<forall>i \<in> set is. i < length d \<Longrightarrow> rds d is = Inr (map ((!) d) is)"
  by (induction "is") (simp_all add: rd_in_bounds)

lemma length_cstr_le: "length (cstr t) \<le> length t"
  by (simp add: cstr_def length_takeWhile_le)

lemma length_strn: "length (strn t) = length t"
  by (simp add: strn_def length_cstr_le)

lemma cstr_strn: "cstr (strn t) = cstr t"
proof -
  have nz: "\<forall>c \<in> set (cstr t). c \<noteq> 0"
    by (auto simp: cstr_def dest: set_takeWhileD)
  have "takeWhile (\<lambda>c. c \<noteq> 0) (replicate k (0::byte)) = []" for k
    by (cases k) simp_all
  with nz show ?thesis
    by (simp add: strn_def cstr_def takeWhile_append2)
qed

lemma strncpy_in_bounds:
  "i + n \<le> length d \<Longrightarrow> strncpy d i n = Inr (strn (take n (drop i d)))"
proof (induction n arbitrary: i)
  case 0
  then show ?case by (simp add: strn_def cstr_def)
next
  case (Suc n)
  then have i: "i < length d" and rest: "Suc i + n \<le> length d" by simp_all
  have split: "take (Suc n) (drop i d) = d ! i # take n (drop (Suc i) d)"
    using i by (simp add: take_Suc_conv_app_nth Cons_nth_drop_Suc [symmetric])
  show ?case
  proof (cases "d ! i = 0")
    case True
    then show ?thesis
      using i rest by (simp add: rd_in_bounds split strn_def cstr_def)
  next
    case False
    then show ?thesis
      using i Suc.IH [OF rest] length_cstr_le [of "take n (drop (Suc i) d)"]
      by (simp add: rd_in_bounds split strn_def cstr_def Suc_diff_le)
  qed
qed

lemma cstr_terminated: "length cs = n \<Longrightarrow> cstr ((cs @ rest)[n := 0]) = cstr cs"
proof (cases rest)
  case Nil
  assume "length cs = n"
  with Nil show ?thesis by (simp add: list_update_beyond)
next
  case (Cons x xs)
  assume "length cs = n"
  with Cons have "(cs @ rest)[n := 0] = cs @ 0 # xs"
    by (simp add: list_update_append)
  then show ?thesis
    by (simp add: cstr_def takeWhile_tail)
qed

lemma cstr_eq_literal:
  "length t = length lit \<Longrightarrow> 0 \<notin> set lit \<Longrightarrow> cstr t = lit \<longleftrightarrow> t = lit"
proof
  assume len: "length t = length lit" and "cstr t = lit"
  then have "length (takeWhile (\<lambda>c. c \<noteq> 0) t) = length t"
    by (simp add: cstr_def)
  then have "takeWhile (\<lambda>c. c \<noteq> 0) t = t"
    by (metis takeWhile_eq_take take_all order_refl)
  with \<open>cstr t = lit\<close> show "t = lit" by (simp add: cstr_def)
next
  assume "0 \<notin> set lit" and "t = lit"
  then show "cstr t = lit"
    by (simp add: cstr_def takeWhile_eq_all_conv) metis
qed

lemma parse_header_in_bounds:
  assumes "45 \<le> length d"
  shows "parse_header d r =
     Inr (r\<lparr>sequence_num := d ! 0, cmd_type := d ! 1, rtn_status := d ! 2,
            data_length := be16 (d ! 3) (d ! 4),
            data := (data r)\<lparr>status := d ! 5, ext_status := d ! 6, occs_present := d ! 7,
              config := d ! 8, occ_state := d ! 9, reserved0 := d ! 10,
              reserved1 := d ! 11, error_log_id := d ! 12,
              error_log_addr_start := be32 (d ! 13) (d ! 14) (d ! 15) (d ! 16),
              error_log_length := be16 (d ! 17) (d ! 18),
              reserved2 := d ! 19, reserved3 := d ! 20,
              occ_code_level := strn (take 16 (drop 21 d)) @ drop 16 (occ_code_level (data r)),
              sensor_eye_catcher :=
                (strn (take 6 (drop 37 d)) @ drop 6 (sensor_eye_catcher (data r)))[6 := 0],
              num_of_sensor_blocks := d ! 43, sensor_data_version := d ! 44\<rparr>\<rparr>)"
proof -
  have h: "rds d [0, 1, 2, 3, 4, 5, 6, 7, 8, 9, 10, 11, 12, 13, 14, 15, 16, 17, 18, 19, 20]
      = Inr (map ((!) d) [0, 1, 2, 3, 4, 5, 6, 7, 8, 9, 10, 11, 12, 13, 14, 15, 16, 17, 18, 19, 20])"
    using assms by (intro rds_in_bounds) auto
  have t: "rds d [43, 44] = Inr (map ((!) d) [43, 44])"
    using assms by (intro rds_in_bounds) simp
  have l: "strncpy d 21 16 = Inr (strn (take 16 (drop 21 d)))"
    using assms by (intro strncpy_in_bounds) simp
  have e: "strncpy d 37 6 = Inr (strn (take 6 (drop 37 d)))"
    using assms by (intro strncpy_in_bounds) simp
  show ?thesis
    unfolding parse_header_def h t l e using assms by auto
qed

lemma marker_test:
  assumes "45 \<le> length d" and "parse_header d r = Inr r1"
  shows "strcmp_eq (sensor_eye_catcher (data r1)) str_SENSOR \<longleftrightarrow> take 6 (drop 37 d) = str_SENSOR"
proof -
  let ?t = "take 6 (drop 37 d)"
  have len: "length ?t = 6" using assms(1) by simp
  have "sensor_eye_catcher (data r1) = (strn ?t @ drop 6 (sensor_eye_catcher (data r)))[6 := 0]"
    using assms by (auto simp: parse_header_in_bounds)
  then have "cstr (sensor_eye_catcher (data r1)) = cstr ?t"
    using len by (simp add: cstr_terminated length_strn cstr_strn)
  moreover have "cstr ?t = str_SENSOR \<longleftrightarrow> ?t = str_SENSOR"
    using len by (intro cstr_eq_literal) (simp_all add: str_SENSOR_def)
  ultimately show ?thesis by (simp add: strcmp_eq_def)
qed

text \<open>
  Claim C7. When the buffer holds the fixed header and its six bytes at offset 37 are not
  \<open>SENSOR\<close>, \<^verbatim>\<open>parse_occ_response\<close> returns \<open>-1\<close> (line 306) with the header fields stored;
  the allocator is untouched, so no \<^verbatim>\<open>kzalloc\<close> call was made and no block was
  parsed, and the \<^verbatim>\<open>blocks\<close> pointer is the one the caller passed in.
\<close>

theorem bad_marker_rejected:
  assumes "45 \<le> length d" and "take 6 (drop 37 d) \<noteq> str_SENSOR"
  shows "\<exists>r1. parse_header d r = Inr r1 \<and> parse_occ_response d m r = Inr (- 1, m, r1)
           \<and> blocks (data r1) = blocks (data r)"
proof -
  obtain r1 where r1: "parse_header d r = Inr r1"
    using assms(1) by (simp add: parse_header_in_bounds)
  have "\<not> strcmp_eq (sensor_eye_catcher (data r1)) str_SENSOR"
    using marker_test [OF assms(1) r1] assms(2) by simp
  then have "parse_occ_response d m r = Inr (- 1, m, r1)"
    by (simp add: parse_occ_response_def r1)
  moreover have "blocks (data r1) = blocks (data r)"
    using r1 assms(1) by (auto simp: parse_header_in_bounds)
  ultimately show ?thesis using r1 by simp
qed

lemma get_occdata_length_in_bounds:
  "5 \<le> length d \<Longrightarrow> get_occdata_length d = Inr (be16 (d ! 3) (d ! 4))"
  by (simp add: get_occdata_length_def rd_in_bounds)

text \<open>
  Claim C9. The declared length is \<open>256 * d[3] + d[4]\<close>, and when it exceeds
  \<open>OCC_DATA_MAX\<close> = 4096, \<^verbatim>\<open>occ_get_all\<close> returns \<open>-1\<close> (line 462) with the allocator and
  the response structure unchanged: \<^verbatim>\<open>parse_occ_response\<close> is not reached.
\<close>

theorem declared_length_cap:
  assumes "5 \<le> length d"
  shows "\<exists>len. get_occdata_length d = Inr len
           \<and> unat len = 256 * unat (d ! 3) + unat (d ! 4)
           \<and> (OCC_DATA_MAX < unat len \<longrightarrow> occ_get_all d m r = Inr (- 1, m, r))"
  using assms
  by (simp add: get_occdata_length_in_bounds unat_be16 occ_get_all_def)

lemma length_fake_occ_rsp: "length fake_occ_rsp = 4096"
  by (simp add: fake_occ_rsp_def occ_buffer_def fake_occ_rsp_init_def OCC_DATA_MAX_def)

theorem bad_marker_rejected_witness:
  "45 \<le> length (fake_occ_rsp[37 := 0x58])
   \<and> take 6 (drop 37 (fake_occ_rsp[37 := 0x58])) \<noteq> str_SENSOR
   \<and> (\<exists>r1. parse_occ_response (fake_occ_rsp[37 := 0x58]) kmem_ok zero_resp = Inr (- 1, kmem_ok, r1)
          \<and> blocks (data r1) = None)"
proof -
  have len: "45 \<le> length (fake_occ_rsp[37 := 0x58])"
    by (simp add: length_fake_occ_rsp)
  have mk: "take 6 (drop 37 (fake_occ_rsp[37 := 0x58])) \<noteq> str_SENSOR"
    by (simp add: fake_occ_rsp_def occ_buffer_def fake_occ_rsp_init_def str_SENSOR_def)
  show ?thesis
    using len mk bad_marker_rejected [OF len mk, of zero_resp kmem_ok]
    by (auto simp: zero_resp_def zero_poll_data_def)
qed

theorem declared_length_cap_witness:
  "5 \<le> length [0, 0, 0, 0x20, 0x01 :: byte]
   \<and> get_occdata_length [0, 0, 0, 0x20, 0x01] = Inr 8193
   \<and> OCC_DATA_MAX < unat (8193 :: u16)
   \<and> occ_get_all [0, 0, 0, 0x20, 0x01] kmem_ok zero_resp = Inr (- 1, kmem_ok, zero_resp)"
  using declared_length_cap [of "[0, 0, 0, 0x20, 0x01]" kmem_ok zero_resp]
  by (auto simp: OCC_DATA_MAX_def word_unat_eq_iff)

subsection \<open>The record loops and the loop body\<close>

lemma sensor_loop_step:
  assumes "s < n" and "dnum + 4 \<le> length d" and "s < length arr"
  shows "sensor_loop d len n s dnum arr =
           sensor_loop d len n (s + 1) (dnum + len) (arr[s := value_record d dnum])"
proof -
  have "rds d [dnum + 1, dnum + 2, dnum + 3] = Inr (map ((!) d) [dnum + 1, dnum + 2, dnum + 3])"
    using assms(2) by (intro rds_in_bounds) auto
  moreover have "rd d dnum = Inr (d ! dnum)"
    using assms(2) by (simp add: rd_in_bounds)
  ultimately show ?thesis
    using assms(1,3)
    by (subst sensor_loop.simps) (simp add: value_record_def)
qed

lemma sensor_loop_done: "\<not> s < n \<Longrightarrow> sensor_loop d len n s dnum arr = Inr (arr, dnum)"
  by (subst sensor_loop.simps) simp

text \<open>
  A FREQ or TEMP record loop whose windows lie inside the buffer decodes record \<open>j\<close> from the
  window at \<open>dnum + j * len\<close> and leaves the cursor at \<open>dnum + k * len\<close>.
\<close>

lemma sensor_loop_in_bounds:
  assumes "length arr = s + k" and "n = s + k"
    and "k = 0 \<or> dnum + (k - 1) * len + 4 \<le> length d"
  shows "sensor_loop d len n s dnum arr =
           Inr (take s arr @ map (\<lambda>j. value_record d (dnum + j * len)) [0..<k], dnum + k * len)"
  using assms
proof (induction k arbitrary: s dnum arr)
  case 0
  then show ?case by (simp add: sensor_loop_done)
next
  case (Suc k)
  have here: "dnum + 4 \<le> length d"
    using Suc.prems(3) by simp
  have rest: "k = 0 \<or> (dnum + len) + (k - 1) * len + 4 \<le> length d"
  proof (cases k)
    case 0
    then show ?thesis by simp
  next
    case (Suc k')
    with Suc.prems(3) show ?thesis by (simp add: algebra_simps)
  qed
  have step: "sensor_loop d len n s dnum arr =
      sensor_loop d len n (s + 1) (dnum + len) (arr[s := value_record d dnum])"
    using Suc.prems(1,2) here by (intro sensor_loop_step) simp_all
  have ih: "sensor_loop d len n (s + 1) (dnum + len) (arr[s := value_record d dnum]) =
      Inr (take (s + 1) (arr[s := value_record d dnum])
             @ map (\<lambda>j. value_record d (dnum + len + j * len)) [0..<k],
           dnum + len + k * len)"
    using Suc.prems(1,2) rest by (intro Suc.IH) simp_all
  have tk: "take (s + 1) (arr[s := value_record d dnum]) = take s arr @ [value_record d dnum]"
    using Suc.prems(1) by (simp add: take_Suc_conv_app_nth)
  have mp: "map (\<lambda>j. value_record d (dnum + j * len)) [0..<Suc k] =
      value_record d dnum # map (\<lambda>j. value_record d (dnum + len + j * len)) [0..<k]"
    by (simp add: map_upt_Suc add.assoc del: upt_Suc)
  show ?case
    unfolding step ih tk mp by simp
qed

lemma get_block_Some: "blocks (data r) = Some bl \<Longrightarrow> b < length bl \<Longrightarrow> get_block r b = Inr (bl ! b)"
  by (simp add: get_block_def)

lemma rds_descriptor:
  "dnum + 8 \<le> length d \<Longrightarrow>
   rds d [dnum + 4, dnum + 5, dnum + 6, dnum + 7] =
     Inr [d ! (dnum + 4), d ! (dnum + 5), d ! (dnum + 6), d ! (dnum + 7)]"
  by (simp add: rd_in_bounds)

lemma tag_test:
  assumes "length t = 4" and "length lit = 4" and "0 \<notin> set lit"
  shows "strcmp_eq (strn t @ [0]) lit \<longleftrightarrow> t = lit"
proof -
  have "cstr (strn t @ [0]) = cstr (strn t)"
    by (simp add: cstr_def takeWhile_tail)
  then have "cstr (strn t @ [0]) = cstr t"
    by (simp add: cstr_strn)
  moreover have "cstr t = lit \<longleftrightarrow> t = lit"
    using assms by (intro cstr_eq_literal) simp_all
  ultimately show ?thesis by (simp add: strcmp_eq_def)
qed

lemma tag_tests:
  assumes "dnum + 8 \<le> length d" and "drop 4 (sensor_type blk0) = [0]"
  shows "strcmp_eq (sensor_type (block_head d dnum blk0)) str_FREQ \<longleftrightarrow> take 4 (drop dnum d) = str_FREQ"
    and "strcmp_eq (sensor_type (block_head d dnum blk0)) str_TEMP \<longleftrightarrow> take 4 (drop dnum d) = str_TEMP"
    and "strcmp_eq (sensor_type (block_head d dnum blk0)) str_POWR \<longleftrightarrow> take 4 (drop dnum d) = str_POWR"
  using assms
  by (simp_all add: block_head_def tag_test str_FREQ_def str_TEMP_def str_POWR_def)

lemma parse_block_unfold:
  assumes "dnum + 8 \<le> length d" and "blocks (data r) = Some bl" and "b < length bl"
  shows "parse_block d b dnum m r =
     (let blk = block_head d dnum (bl ! b); r1 = set_block r b blk; dnum1 = dnum + 8
      in
        if unat (num_of_sensors blk) \<le> 0 then Inr (Next dnum1 m r1)
        else if sensor_length blk = 0 then Inr (Next dnum1 m r1)
        else if strcmp_eq (sensor_type blk) str_FREQ then
          (case kzalloc_sensors (unat (num_of_sensors blk)) m of
             (None, m1) \<Rightarrow> abort (- ENOMEM) m1 (set_block r b (blk\<lparr>sensor := None\<rparr>))
           | (Some arr, m1) \<Rightarrow>
               (case sensor_loop d (unat (sensor_length blk)) (unat (num_of_sensors blk))
                       0 dnum1 arr of
                  Inl f \<Rightarrow> Inl f
                | Inr (arr1, dnum2) \<Rightarrow>
                    Inr (Next dnum2 m1
                      ((set_block r b (blk\<lparr>sensor := Some arr1\<rparr>))
                         \<lparr>freq_block_id := of_nat b\<rparr>))))
        else if strcmp_eq (sensor_type blk) str_TEMP then
          (case kzalloc_sensors (unat (num_of_sensors blk)) m of
             (None, m1) \<Rightarrow> abort (- ENOMEM) m1 (set_block r b (blk\<lparr>sensor := None\<rparr>))
           | (Some arr, m1) \<Rightarrow>
               (case sensor_loop d (unat (sensor_length blk)) (unat (num_of_sensors blk))
                       0 dnum1 arr of
                  Inl f \<Rightarrow> Inl f
                | Inr (arr1, dnum2) \<Rightarrow>
                    Inr (Next dnum2 m1
                      ((set_block r b (blk\<lparr>sensor := Some arr1\<rparr>))
                         \<lparr>temp_block_id := of_nat b\<rparr>))))
        else if strcmp_eq (sensor_type blk) str_POWR then
          (case kzalloc_powrs (unat (num_of_sensors blk)) m of
             (None, m1) \<Rightarrow> abort (- ENOMEM) m1 (set_block r b (blk\<lparr>powr := None\<rparr>))
           | (Some arr, m1) \<Rightarrow>
               (case powr_loop d (unat (sensor_length blk)) (unat (num_of_sensors blk))
                       0 dnum1 (sensor blk) arr of
                  Inl f \<Rightarrow> Inl f
                | Inr (arr1, dnum2) \<Rightarrow>
                    Inr (Next dnum2 m1
                      ((set_block r b (blk\<lparr>powr := Some arr1\<rparr>))
                         \<lparr>power_block_id := of_nat b\<rparr>))))
        else Inr (Next dnum1 m r1))"
proof -
  have s: "strncpy d dnum 4 = Inr (strn (take 4 (drop dnum d)))"
    using assms(1) by (intro strncpy_in_bounds) simp
  have bh: "(bl ! b)\<lparr>sensor_type := strn (take 4 (drop dnum d)) @ drop 4 (sensor_type (bl ! b)),
          block_reserved0 := [d ! (dnum + 4), d ! (dnum + 5), d ! (dnum + 6), d ! (dnum + 7)] ! 0,
          sensor_format := [d ! (dnum + 4), d ! (dnum + 5), d ! (dnum + 6), d ! (dnum + 7)] ! 1,
          sensor_length := [d ! (dnum + 4), d ! (dnum + 5), d ! (dnum + 6), d ! (dnum + 7)] ! 2,
          num_of_sensors := [d ! (dnum + 4), d ! (dnum + 5), d ! (dnum + 6), d ! (dnum + 7)] ! 3\<rparr>
        = block_head d dnum (bl ! b)"
    by (simp add: block_head_def)
  show ?thesis
    unfolding parse_block_def s get_block_Some [OF assms(2,3)] rds_descriptor [OF assms(1)]
      sum.case bh ..
qed

lemma parse_block_empty:
  assumes "dnum + 8 \<le> length d" and "blocks (data r) = Some bl" and "b < length bl"
    and "d ! (dnum + 7) = 0 \<or> d ! (dnum + 6) = 0"
  shows "parse_block d b dnum m r =
           Inr (Next (dnum + 8) m (set_block r b (block_head d dnum (bl ! b))))"
proof -
  have "num_of_sensors (block_head d dnum (bl ! b)) = d ! (dnum + 7)"
    and "sensor_length (block_head d dnum (bl ! b)) = d ! (dnum + 6)"
    by (simp_all add: block_head_def)
  with assms(4) show ?thesis
    unfolding parse_block_unfold [OF assms(1-3)] by (auto simp: Let_def unat_eq_0)
qed

text \<open>
  A block with an unrecognised tag: the \<^verbatim>\<open>continue\<close> of line 411 leaves the cursor behind the
  descriptor, whatever count and stride the descriptor declares.
\<close>

lemma parse_block_unknown:
  assumes "dnum + 8 \<le> length d" and "blocks (data r) = Some bl" and "b < length bl"
    and "drop 4 (sensor_type (bl ! b)) = [0]"
    and "take 4 (drop dnum d) \<noteq> str_FREQ" and "take 4 (drop dnum d) \<noteq> str_TEMP"
    and "take 4 (drop dnum d) \<noteq> str_POWR"
  shows "parse_block d b dnum m r =
           Inr (Next (dnum + 8) m (set_block r b (block_head d dnum (bl ! b))))"
  unfolding parse_block_unfold [OF assms(1-3)]
  using assms(5-7) by (simp add: Let_def tag_tests [OF assms(1,4)])

lemma sensor_loop_block:
  assumes "n \<noteq> 0" and "dnum + (n - 1) * len + 4 \<le> length d"
  shows "sensor_loop d len n 0 dnum (replicate n zero_sensor) =
           Inr (map (\<lambda>j. value_record d (dnum + j * len)) [0..<n], dnum + n * len)"
  using sensor_loop_in_bounds [of "replicate n zero_sensor" 0 n n dnum len d] assms by simp

lemma str_distinct:
  "str_TEMP \<noteq> str_FREQ" "str_POWR \<noteq> str_FREQ" "str_POWR \<noteq> str_TEMP"
  by (simp_all add: str_FREQ_def str_TEMP_def str_POWR_def)

lemma parse_block_temp:
  assumes "dnum + 8 \<le> length d" and "blocks (data r) = Some bl" and "b < length bl"
    and "drop 4 (sensor_type (bl ! b)) = [0]"
    and "take 4 (drop dnum d) = str_TEMP"
    and "d ! (dnum + 7) \<noteq> 0" and "d ! (dnum + 6) \<noteq> 0"
    and "alloc_ok m (kcalls m)"
    and "dnum + 8 + (unat (d ! (dnum + 7)) - 1) * unat (d ! (dnum + 6)) + 4 \<le> length d"
  shows "parse_block d b dnum m r =
     Inr (Next (dnum + 8 + unat (d ! (dnum + 7)) * unat (d ! (dnum + 6)))
            (m\<lparr>kcalls := kcalls m + 1, live_sensor_arrays := live_sensor_arrays m + 1\<rparr>)
            ((set_block r b ((block_head d dnum (bl ! b))
                \<lparr>sensor := Some (map (\<lambda>j. value_record d (dnum + 8 + j * unat (d ! (dnum + 6))))
                                   [0..<unat (d ! (dnum + 7))])\<rparr>))
               \<lparr>temp_block_id := of_nat b\<rparr>))"
proof -
  let ?blk = "block_head d dnum (bl ! b)"
  have f: "num_of_sensors ?blk = d ! (dnum + 7)" "sensor_length ?blk = d ! (dnum + 6)"
    by (simp_all add: block_head_def)
  have n0: "unat (d ! (dnum + 7)) \<noteq> 0"
    using assms(6) by (simp add: unat_eq_0)
  have tags: "\<not> strcmp_eq (sensor_type ?blk) str_FREQ" "strcmp_eq (sensor_type ?blk) str_TEMP"
    using assms(5) by (simp_all add: tag_tests [OF assms(1,4)] str_distinct)
  have loop: "sensor_loop d (unat (d ! (dnum + 6))) (unat (d ! (dnum + 7))) 0 (dnum + 8)
                (replicate (unat (d ! (dnum + 7))) zero_sensor) =
      Inr (map (\<lambda>j. value_record d (dnum + 8 + j * unat (d ! (dnum + 6)))) [0..<unat (d ! (dnum + 7))],
           dnum + 8 + unat (d ! (dnum + 7)) * unat (d ! (dnum + 6)))"
    using n0 assms(9) by (intro sensor_loop_block) simp_all
  show ?thesis
    unfolding parse_block_unfold [OF assms(1-3)] Let_def
    using n0 assms(7,8) by (simp add: f tags kzalloc_sensors_def loop)
qed

lemma parse_block_freq:
  assumes "dnum + 8 \<le> length d" and "blocks (data r) = Some bl" and "b < length bl"
    and "drop 4 (sensor_type (bl ! b)) = [0]"
    and "take 4 (drop dnum d) = str_FREQ"
    and "d ! (dnum + 7) \<noteq> 0" and "d ! (dnum + 6) \<noteq> 0"
    and "alloc_ok m (kcalls m)"
    and "dnum + 8 + (unat (d ! (dnum + 7)) - 1) * unat (d ! (dnum + 6)) + 4 \<le> length d"
  shows "parse_block d b dnum m r =
     Inr (Next (dnum + 8 + unat (d ! (dnum + 7)) * unat (d ! (dnum + 6)))
            (m\<lparr>kcalls := kcalls m + 1, live_sensor_arrays := live_sensor_arrays m + 1\<rparr>)
            ((set_block r b ((block_head d dnum (bl ! b))
                \<lparr>sensor := Some (map (\<lambda>j. value_record d (dnum + 8 + j * unat (d ! (dnum + 6))))
                                   [0..<unat (d ! (dnum + 7))])\<rparr>))
               \<lparr>freq_block_id := of_nat b\<rparr>))"
proof -
  let ?blk = "block_head d dnum (bl ! b)"
  have f: "num_of_sensors ?blk = d ! (dnum + 7)" "sensor_length ?blk = d ! (dnum + 6)"
    by (simp_all add: block_head_def)
  have n0: "unat (d ! (dnum + 7)) \<noteq> 0"
    using assms(6) by (simp add: unat_eq_0)
  have tags: "strcmp_eq (sensor_type ?blk) str_FREQ"
    using assms(5) by (simp_all add: tag_tests [OF assms(1,4)])
  have loop: "sensor_loop d (unat (d ! (dnum + 6))) (unat (d ! (dnum + 7))) 0 (dnum + 8)
                (replicate (unat (d ! (dnum + 7))) zero_sensor) =
      Inr (map (\<lambda>j. value_record d (dnum + 8 + j * unat (d ! (dnum + 6)))) [0..<unat (d ! (dnum + 7))],
           dnum + 8 + unat (d ! (dnum + 7)) * unat (d ! (dnum + 6)))"
    using n0 assms(9) by (intro sensor_loop_block) simp_all
  show ?thesis
    unfolding parse_block_unfold [OF assms(1-3)] Let_def
    using n0 assms(7,8) by (simp add: f tags kzalloc_sensors_def loop)
qed

lemma powr_loop_null:
  assumes "s < n" and "s < length arr" and "dnum + 12 \<le> length d"
  shows "powr_loop d len n s dnum None arr = Inl NullDeref"
proof -
  have "rd d dnum = Inr (d ! dnum)"
    using assms(3) by (simp add: rd_in_bounds)
  moreover have "\<exists>c. rds d [dnum + 1, dnum + 2, dnum + 3, dnum + 4, dnum + 5, dnum + 6,
                     dnum + 7, dnum + 8, dnum + 9, dnum + 10, dnum + 11] = Inr c"
    using assms(3) by (simp add: rd_in_bounds)
  ultimately show ?thesis
    using assms(1,2) by (subst powr_loop.simps) auto
qed

lemma parse_block_powr:
  assumes "dnum + 8 \<le> length d" and "blocks (data r) = Some bl" and "b < length bl"
    and "drop 4 (sensor_type (bl ! b)) = [0]" and "sensor (bl ! b) = None"
    and "take 4 (drop dnum d) = str_POWR"
    and "d ! (dnum + 7) \<noteq> 0" and "d ! (dnum + 6) \<noteq> 0"
    and "alloc_ok m (kcalls m)"
    and "dnum + 20 \<le> length d"
  shows "parse_block d b dnum m r = Inl NullDeref"
proof -
  let ?blk = "block_head d dnum (bl ! b)"
  have f: "num_of_sensors ?blk = d ! (dnum + 7)" "sensor_length ?blk = d ! (dnum + 6)"
    "sensor ?blk = None"
    using assms(5) by (simp_all add: block_head_def)
  have n0: "unat (d ! (dnum + 7)) \<noteq> 0"
    using assms(7) by (simp add: unat_eq_0)
  have tags: "\<not> strcmp_eq (sensor_type ?blk) str_FREQ" "\<not> strcmp_eq (sensor_type ?blk) str_TEMP"
    "strcmp_eq (sensor_type ?blk) str_POWR"
    using assms(6)
    by (simp_all add: tag_tests [OF assms(1,4)] str_distinct)
  have loop: "powr_loop d (unat (d ! (dnum + 6))) (unat (d ! (dnum + 7))) 0 (dnum + 8) None
                (replicate (unat (d ! (dnum + 7))) zero_powr) = Inl NullDeref"
    using n0 assms(10) by (intro powr_loop_null) simp_all
  show ?thesis
    unfolding parse_block_unfold [OF assms(1-3)] Let_def
    using n0 assms(8,9) by (simp add: f tags kzalloc_powrs_def loop)
qed

lemma block_loop_step:
  "b < unat (num_of_sensor_blocks (data r)) \<Longrightarrow>
   block_loop d b dnum m r =
     (case parse_block d b dnum m r of
        Inl f \<Rightarrow> Inl f
      | Inr (Stop ret m1 r1) \<Rightarrow> Inr (ret, m1, r1)
      | Inr (Next dnum1 m1 r1) \<Rightarrow> block_loop d (b + 1) dnum1 m1 r1)"
  by (subst block_loop.simps) simp

lemma block_loop_done:
  "\<not> b < unat (num_of_sensor_blocks (data r)) \<Longrightarrow> block_loop d b dnum m r = Inr (0, m, r)"
  by (subst block_loop.simps) simp

subsection \<open>Evaluation on concrete buffers\<close>

lemma length_occ_buffer: "length init \<le> OCC_DATA_MAX \<Longrightarrow> length (occ_buffer init) = OCC_DATA_MAX"
  by (simp add: occ_buffer_def)

lemma nth_occ_buffer: "i < length init \<Longrightarrow> occ_buffer init ! i = init ! i"
  by (simp add: occ_buffer_def nth_append)

lemma take_drop_occ_buffer:
  "i + n \<le> length init \<Longrightarrow> take n (drop i (occ_buffer init)) = take n (drop i init)"
  by (simp add: occ_buffer_def)

lemma parse_block_empty':
  assumes "blocks (data r) \<noteq> None" and "b < length (the (blocks (data r)))"
    and "dnum + 8 \<le> length d" 
    and "d ! (dnum + 7) = 0 \<or> d ! (dnum + 6) = 0"
  shows "parse_block d b dnum m r =
           Inr (Next (dnum + 8) m (set_block r b (block_head d dnum (the (blocks (data r)) ! b))))"
  using assms parse_block_empty by fastforce

lemma parse_block_unknown':
  assumes "blocks (data r) \<noteq> None" and "b < length (the (blocks (data r)))"
    and "dnum + 8 \<le> length d" 
    and "drop 4 (sensor_type (the (blocks (data r)) ! b)) = [0]"
    and "take 4 (drop dnum d) \<noteq> str_FREQ" and "take 4 (drop dnum d) \<noteq> str_TEMP"
    and "take 4 (drop dnum d) \<noteq> str_POWR"
  shows "parse_block d b dnum m r =
           Inr (Next (dnum + 8) m (set_block r b (block_head d dnum (the (blocks (data r)) ! b))))"
  using assms parse_block_unknown by fastforce

lemma parse_block_temp':
  assumes "blocks (data r) \<noteq> None" and "b < length (the (blocks (data r)))"
    and "dnum + 8 \<le> length d" 
    and "drop 4 (sensor_type (the (blocks (data r)) ! b)) = [0]"
    and "take 4 (drop dnum d) = str_TEMP"
    and "d ! (dnum + 7) \<noteq> 0" and "d ! (dnum + 6) \<noteq> 0"
    and "alloc_ok m (kcalls m)"
    and "dnum + 8 + (unat (d ! (dnum + 7)) - 1) * unat (d ! (dnum + 6)) + 4 \<le> length d"
  shows "parse_block d b dnum m r =
     Inr (Next (dnum + 8 + unat (d ! (dnum + 7)) * unat (d ! (dnum + 6)))
            (m\<lparr>kcalls := kcalls m + 1, live_sensor_arrays := live_sensor_arrays m + 1\<rparr>)
            ((set_block r b ((block_head d dnum (the (blocks (data r)) ! b))
                \<lparr>sensor := Some (map (\<lambda>j. value_record d (dnum + 8 + j * unat (d ! (dnum + 6))))
                                   [0..<unat (d ! (dnum + 7))])\<rparr>))
               \<lparr>temp_block_id := of_nat b\<rparr>))"
  using assms parse_block_temp by fastforce

lemma parse_block_freq':
  assumes "blocks (data r) \<noteq> None" and "b < length (the (blocks (data r)))"
    and "dnum + 8 \<le> length d" 
    and "drop 4 (sensor_type (the (blocks (data r)) ! b)) = [0]"
    and "take 4 (drop dnum d) = str_FREQ"
    and "d ! (dnum + 7) \<noteq> 0" and "d ! (dnum + 6) \<noteq> 0"
    and "alloc_ok m (kcalls m)"
    and "dnum + 8 + (unat (d ! (dnum + 7)) - 1) * unat (d ! (dnum + 6)) + 4 \<le> length d"
  shows "parse_block d b dnum m r =
     Inr (Next (dnum + 8 + unat (d ! (dnum + 7)) * unat (d ! (dnum + 6)))
            (m\<lparr>kcalls := kcalls m + 1, live_sensor_arrays := live_sensor_arrays m + 1\<rparr>)
            ((set_block r b ((block_head d dnum (the (blocks (data r)) ! b))
                \<lparr>sensor := Some (map (\<lambda>j. value_record d (dnum + 8 + j * unat (d ! (dnum + 6))))
                                   [0..<unat (d ! (dnum + 7))])\<rparr>))
               \<lparr>freq_block_id := of_nat b\<rparr>))"
  using assms parse_block_freq by fastforce

lemmas exec_simps =
  parse_occ_response_def parse_header_in_bounds kzalloc_blocks_def
  block_loop_step block_loop_done
  parse_block_empty' parse_block_unknown' parse_block_temp' parse_block_freq'
  set_block_def block_head_def value_record_def strn_def cstr_def strcmp_eq_def
  str_SENSOR_def str_FREQ_def str_TEMP_def str_POWR_def
  zero_resp_def zero_poll_data_def zero_block_def zero_sensor_def kmem_ok_def
  be16_def be32_def OCC_DATA_MAX_def

lemma replicate_unfold: "replicate (numeral k) x = x # replicate (pred_numeral k) x"
  by (simp add: numeral_eq_Suc)

lemma map_upt_unfold:
  "map f [0..<numeral k] = f 0 # map (\<lambda>j. f (Suc j)) [0..<pred_numeral k]"
  by (simp add: numeral_eq_Suc map_upt_Suc del: upt_Suc)

lemmas buffer_simps = replicate_unfold map_upt_unfold
  length_occ_buffer nth_occ_buffer take_drop_occ_buffer

subsection \<open>The sample response\<close>

lemma sample_frame_result:
  "parse_occ_response fake_occ_rsp kmem_ok zero_resp = Inr (0, sample_mem, sample_resp)"
  by (simp add: fake_occ_rsp_def exec_simps buffer_simps fake_occ_rsp_init_def sample_resp_def
      sample_mem_def)

text \<open>
  Claim C10, as amended. Decoding the sample \<^verbatim>\<open>fake_occ_rsp\<close> returns 0. Its block count is
  4: a TEMP block of 10 records at stride 4, a FREQ block of 10 records at stride 4, a POWR
  block with no records (stride 12) and a block tagged CAPS (1 record, stride 12), which is
  not recognised. \<^verbatim>\<open>temp_block_id\<close> is 0; the first block has the 10 listed sensor ids,
  the first being \<open>0x6a\<close>, with value 0 each. No power array is allocated, and
  \<^verbatim>\<open>power_block_id\<close> keeps the value 0 it had before.
\<close>

theorem sample_frame_decodes:
  "parse_occ_response fake_occ_rsp kmem_ok zero_resp = Inr (0, sample_mem, sample_resp)
   \<and> num_of_sensor_blocks (data sample_resp) = 4
   \<and> map sensor_type (the (blocks (data sample_resp))) =
       [str_TEMP @ [0], str_FREQ @ [0], str_POWR @ [0], str_CAPS @ [0]]
   \<and> map num_of_sensors (the (blocks (data sample_resp))) = [10, 10, 0, 1]
   \<and> map sensor_length (the (blocks (data sample_resp))) = [4, 4, 12, 12]
   \<and> temp_block_id sample_resp = 0
   \<and> map sensor_id (the (sensor (the (blocks (data sample_resp)) ! 0))) =
       [0x6a, 0x6c, 0x6d, 0x6e, 0x6f, 0x70, 0x71, 0x73, 0x74, 0x75]
   \<and> map sensor_value (the (sensor (the (blocks (data sample_resp)) ! 0))) =
       [0, 0, 0, 0, 0, 0, 0, 0, 0, 0]
   \<and> freq_block_id sample_resp = 1
   \<and> length (the (sensor (the (blocks (data sample_resp)) ! 1))) = 10
   \<and> map powr (the (blocks (data sample_resp))) = [None, None, None, None]
   \<and> power_block_id sample_resp = 0
   \<and> live_powr_arrays sample_mem = 0"
  using sample_frame_result
  by (simp add: sample_resp_def sample_mem_def kmem_ok_def str_TEMP_def str_FREQ_def
      str_POWR_def str_CAPS_def)

text \<open>
  Claim C10 as stated fails on the sample: the decoded response does not have a block count
  of 3, the block tagged POWR declares no record, and no block has a power array.
\<close>

theorem sample_frame_counterexample:
  "parse_occ_response fake_occ_rsp kmem_ok zero_resp = Inr (0, sample_mem, sample_resp)
   \<and> num_of_sensor_blocks (data sample_resp) \<noteq> 3
   \<and> sensor_type (the (blocks (data sample_resp)) ! 2) = str_POWR @ [0]
   \<and> num_of_sensors (the (blocks (data sample_resp)) ! 2) \<noteq> 1
   \<and> map powr (the (blocks (data sample_resp))) = [None, None, None, None]"
  using sample_frame_result
  by (simp add: sample_resp_def str_POWR_def)

subsection \<open>Empty blocks\<close>

text \<open>
  Claim C8. When the loop is at block \<open>b\<close> with the cursor on a descriptor whose count or
  stride byte is 0 (the block's array entry being as \<^verbatim>\<open>kzalloc\<close> left it), the pass consumes
  the 8 descriptor bytes and nothing else: the allocator is unchanged, the entry records
  the declared tag, stride and count with both array pointers \<^verbatim>\<open>NULL\<close>, and the loop goes
  on with block \<open>b + 1\<close> at cursor \<open>dnum + 8\<close>.
\<close>

theorem empty_block_continues:
  assumes "blocks (data r) = Some bl" and "b < length bl" and "bl ! b = zero_block"
    and "b < unat (num_of_sensor_blocks (data r))"
    and "dnum + 8 \<le> length d"
    and "d ! (dnum + 7) = 0 \<or> d ! (dnum + 6) = 0"
  shows "block_loop d b dnum m r =
           block_loop d (b + 1) (dnum + 8) m
             (set_block r b
                \<lparr>sensor_type = strn (take 4 (drop dnum d)) @ [0],
                 block_reserved0 = d ! (dnum + 4), sensor_format = d ! (dnum + 5),
                 sensor_length = d ! (dnum + 6), num_of_sensors = d ! (dnum + 7),
                 sensor = None, powr = None\<rparr>)"
proof -
  have "block_head d dnum (bl ! b) =
      \<lparr>sensor_type = strn (take 4 (drop dnum d)) @ [0],
       block_reserved0 = d ! (dnum + 4), sensor_format = d ! (dnum + 5),
       sensor_length = d ! (dnum + 6), num_of_sensors = d ! (dnum + 7),
       sensor = None, powr = None\<rparr>"
    using assms(3) by (simp add: block_head_def zero_block_def)
  then show ?thesis
    using parse_block_empty [OF assms(5,1,2,6), of m] assms(4)
    by (simp add: block_loop_step)
qed

lemma sandwich_len: "length sandwich_init = 89"
  by (simp add: sandwich_init_def)

lemmas sandwich_defs = sandwich_len sandwich_init_def sandwich_B0_def sandwich_B1_def sandwich_B2_def
  sandwich_hdr_def sandwich_r1_def sandwich_m1_def

theorem empty_block_continues_witness:
  "parse_occ_response (occ_buffer sandwich_init) kmem_ok zero_resp =
     block_loop (occ_buffer sandwich_init) 1 61 sandwich_m1 sandwich_r1
   \<and> blocks (data sandwich_r1) = Some [sandwich_B0, zero_block, zero_block]
   \<and> occ_buffer sandwich_init ! (61 + 7) = 0
   \<and> block_loop (occ_buffer sandwich_init) 1 61 sandwich_m1 sandwich_r1 =
       block_loop (occ_buffer sandwich_init) (1 + 1) (61 + 8) sandwich_m1
         (set_block sandwich_r1 1 sandwich_B1)
   \<and> block_loop (occ_buffer sandwich_init) (1 + 1) (61 + 8) sandwich_m1
         (set_block sandwich_r1 1 sandwich_B1) =
       Inr (0, kmem_ok\<lparr>kcalls := 3, live_block_arrays := 1, live_sensor_arrays := 2\<rparr>,
            zero_resp\<lparr>data := sandwich_hdr\<lparr>blocks := Some [sandwich_B0, sandwich_B1, sandwich_B2]\<rparr>,
                      temp_block_id := 2\<rparr>)"
proof -
  let ?d = "occ_buffer sandwich_init"
  have h1: "blocks (data sandwich_r1) = Some [sandwich_B0, zero_block, zero_block]"
    by (simp add: sandwich_r1_def)
  have h2: "1 < length [sandwich_B0, zero_block, zero_block]"
    by simp
  have h3: "[sandwich_B0, zero_block, zero_block] ! 1 = zero_block"
    by simp
  have h4: "1 < unat (num_of_sensor_blocks (data sandwich_r1))"
    by (simp add: sandwich_r1_def sandwich_hdr_def)
  have h5: "61 + 8 \<le> length ?d"
    by (simp add: length_occ_buffer sandwich_len OCC_DATA_MAX_def)
  have h6: "?d ! (61 + 7) = 0"
    by (simp add: nth_occ_buffer sandwich_len) (simp add: sandwich_init_def)
  have b1: "\<lparr>sensor_type = strn (take 4 (drop 61 ?d)) @ [0],
                 block_reserved0 = ?d ! (61 + 4), sensor_format = ?d ! (61 + 5),
                 sensor_length = ?d ! (61 + 6), num_of_sensors = ?d ! (61 + 7),
                 sensor = None, powr = None\<rparr> = sandwich_B1"
    by (simp add: nth_occ_buffer take_drop_occ_buffer sandwich_len)
       (simp add: sandwich_init_def sandwich_B1_def strn_def cstr_def)
  have step: "block_loop ?d 1 61 sandwich_m1 sandwich_r1 =
      block_loop ?d (1 + 1) (61 + 8) sandwich_m1 (set_block sandwich_r1 1 sandwich_B1)"
    using empty_block_continues [OF h1 h2 h3 h4 h5 disjI1 [OF h6], of sandwich_m1]
    unfolding b1 .
  have first: "parse_occ_response ?d kmem_ok zero_resp = block_loop ?d 1 61 sandwich_m1 sandwich_r1"
    by (simp add: exec_simps buffer_simps sandwich_defs)
  have last: "block_loop ?d (1 + 1) (61 + 8) sandwich_m1 (set_block sandwich_r1 1 sandwich_B1) =
       Inr (0, kmem_ok\<lparr>kcalls := 3, live_block_arrays := 1, live_sensor_arrays := 2\<rparr>,
            zero_resp\<lparr>data := sandwich_hdr\<lparr>blocks := Some [sandwich_B0, sandwich_B1, sandwich_B2]\<rparr>,
                      temp_block_id := 2\<rparr>)"
    by (simp add: exec_simps buffer_simps sandwich_defs)
  show ?thesis
    using h1 h6 step first last by blast
qed

subsection \<open>POWR blocks and unrecognised blocks\<close>

lemma parse_block_powr':
  assumes "blocks (data r) \<noteq> None" and "b < length (the (blocks (data r)))"
    and "dnum + 8 \<le> length d"
    and "drop 4 (sensor_type (the (blocks (data r)) ! b)) = [0]"
    and "sensor (the (blocks (data r)) ! b) = None"
    and "take 4 (drop dnum d) = str_POWR"
    and "d ! (dnum + 7) \<noteq> 0" and "d ! (dnum + 6) \<noteq> 0"
    and "alloc_ok m (kcalls m)"
    and "dnum + 20 \<le> length d"
  shows "parse_block d b dnum m r = Inl NullDeref"
  using assms parse_block_powr by fastforce

text \<open>
  Claim C5. When the loop is at block \<open>b\<close> with the cursor on a POWR descriptor with
  non-zero count and stride, the block's array entry being as \<^verbatim>\<open>kzalloc\<close> left it (so its
  \<^verbatim>\<open>sensor\<close> pointer is \<^verbatim>\<open>NULL\<close>), the descriptor and the twelve bytes of record 0 being in
  the buffer and the allocation of the power array succeeding, the decode ends in the read
  through the \<^verbatim>\<open>NULL\<close> \<^verbatim>\<open>sensor\<close> pointer of lines 403--404.
\<close>

theorem powr_block_null_deref:
  assumes "blocks (data r) = Some bl" and "b < length bl" and "bl ! b = zero_block"
    and "b < unat (num_of_sensor_blocks (data r))"
    and "dnum + 20 \<le> length d"
    and "take 4 (drop dnum d) = str_POWR"
    and "d ! (dnum + 7) \<noteq> 0" and "d ! (dnum + 6) \<noteq> 0"
    and "alloc_ok m (kcalls m)"
  shows "sensor (block_head d dnum (bl ! b)) = None
         \<and> parse_block d b dnum m r = Inl NullDeref
         \<and> block_loop d b dnum m r = Inl NullDeref"
proof -
  have z: "drop 4 (sensor_type (bl ! b)) = [0]" "sensor (bl ! b) = None"
    using assms(3) by (simp_all add: zero_block_def)
  have hd: "dnum + 8 \<le> length d"
    using assms(5) by simp
  have pb: "parse_block d b dnum m r = Inl NullDeref"
    using hd assms(1,2) z assms(6-9) assms(5) by (rule parse_block_powr)
  then show ?thesis
    using assms(4) z(2) by (simp add: block_loop_step block_head_def)
qed

theorem powr_block_null_deref_witness:
  "parse_occ_response (occ_buffer powr_init) kmem_ok zero_resp =
     block_loop (occ_buffer powr_init) 1 57 powr_m1 powr_r1
   \<and> take 4 (drop 57 (occ_buffer powr_init)) = str_POWR
   \<and> occ_buffer powr_init ! (57 + 7) = 1 \<and> occ_buffer powr_init ! (57 + 6) = 12
   \<and> alloc_ok powr_m1 (kcalls powr_m1)
   \<and> block_loop (occ_buffer powr_init) 1 57 powr_m1 powr_r1 = Inl NullDeref
   \<and> parse_occ_response (occ_buffer powr_init) kmem_ok zero_resp = Inl NullDeref"
proof -
  let ?d = "occ_buffer powr_init"
  let ?bl = "the (blocks (data powr_r1))"
  have len: "length powr_init = 77"
    by (simp add: powr_init_def)
  have h1: "blocks (data powr_r1) = Some ?bl"
    by (simp add: powr_r1_def)
  have h2: "1 < length ?bl" and h3: "?bl ! 1 = zero_block"
    by (simp_all add: powr_r1_def)
  have h4: "1 < unat (num_of_sensor_blocks (data powr_r1))"
    by (simp add: powr_r1_def)
  have h5: "57 + 20 \<le> length ?d"
    by (simp add: length_occ_buffer len OCC_DATA_MAX_def)
  have h6: "take 4 (drop 57 ?d) = str_POWR"
    by (simp add: take_drop_occ_buffer len) (simp add: powr_init_def str_POWR_def)
  have v7: "?d ! (57 + 7) = 1" and v6: "?d ! (57 + 6) = 12"
    by (simp_all add: nth_occ_buffer len) (simp_all add: powr_init_def)
  have h9: "alloc_ok powr_m1 (kcalls powr_m1)"
    by (simp add: powr_m1_def kmem_ok_def)
  have first: "parse_occ_response ?d kmem_ok zero_resp = block_loop ?d 1 57 powr_m1 powr_r1"
    by (simp add: exec_simps buffer_simps parse_block_powr' len powr_init_def powr_r1_def
        powr_m1_def)
  have "block_loop ?d 1 57 powr_m1 powr_r1 = Inl NullDeref"
    using powr_block_null_deref [OF h1 h2 h3 h4 h5 h6 _ _ h9] v7 v6 by simp
  with first h6 v7 v6 h9 show ?thesis by simp
qed

text \<open>
  Claim C2 fails for POWR blocks: on a frame whose only block is a POWR block of two records
  at stride 12 the decode stores record 0 and then ends in the \<^verbatim>\<open>NULL\<close> read of lines
  403--404; record 1 is never decoded and nothing is returned.
\<close>

theorem powr_records_not_decoded:
  "parse_occ_response (occ_buffer powr2_init) kmem_ok zero_resp = Inl NullDeref"
proof -
  have len: "length powr2_init = 77"
    by (simp add: powr2_init_def)
  show ?thesis
    by (simp add: exec_simps buffer_simps parse_block_powr' len powr2_init_def)
qed

text \<open>
  Claim C3 fails on a frame with a FOOX block (one record at stride 4) followed by a TEMP
  block: after the FOOX descriptor the cursor is at 53, the first body byte, not at 57.
  The second descriptor is read from the four body bytes and the tag of the TEMP block:
  an empty tag, stride \<open>0x4d\<close> and count \<open>0x50\<close>. The decode returns 0 with no sensor
  array allocated; the TEMP block is not decoded.
\<close>

theorem unknown_block_body_not_skipped:
  "parse_occ_response (occ_buffer foox_init) kmem_ok zero_resp =
     Inr (0, kmem_ok\<lparr>kcalls := 1, live_block_arrays := 1\<rparr>,
          zero_resp\<lparr>data := zero_poll_data
            \<lparr>sensor_eye_catcher := [0x53, 0x45, 0x4e, 0x53, 0x4f, 0x52, 0],
             num_of_sensor_blocks := 2, sensor_data_version := 1,
             blocks := Some
               [\<lparr>sensor_type = [0x46, 0x4f, 0x4f, 0x58, 0], block_reserved0 = 0,
                 sensor_format = 1, sensor_length = 4, num_of_sensors = 1,
                 sensor = None, powr = None\<rparr>,
                \<lparr>sensor_type = [0, 0, 0, 0, 0], block_reserved0 = 0x54,
                 sensor_format = 0x45, sensor_length = 0x4d, num_of_sensors = 0x50,
                 sensor = None, powr = None\<rparr>]\<rparr>\<rparr>)"
proof -
  have len: "length foox_init = 69"
    by (simp add: foox_init_def)
  show ?thesis
    by (simp add: exec_simps buffer_simps len foox_init_def)
qed

subsection \<open>Failed decodes and the temperature attributes\<close>

text \<open>
  The loop of \<^verbatim>\<open>deinit_occ_resp_buf\<close> never changes the allocator: \<^verbatim>\<open>kfree\<close> is called on the
  \<^verbatim>\<open>NULL\<close> pointers only, so no sensor or power array is freed.
\<close>

lemma deinit_loop_returns: "deinit_loop bl n b m = Inr m1 \<Longrightarrow> m1 = m"
proof (induction bl n b m rule: deinit_loop.induct)
  case (1 bl n b m)
  show ?case
  proof (cases "b < n")
    case True
    with "1.prems" have inb: "\<not> length bl \<le> b"
      by (subst (asm) deinit_loop.simps) (auto split: if_splits)
    let ?m1 = "if sensor (bl ! b) = None then kfree_sensors (sensor (bl ! b)) m else m"
    let ?m2 = "if powr (bl ! b) = None then kfree_powrs (powr (bl ! b)) ?m1 else ?m1"
    have m2: "?m2 = m"
      by (simp add: kfree_sensors_def kfree_powrs_def)
    have "deinit_loop bl n (b + 1) ?m2 = Inr m1"
      using "1.prems" True inb by (subst (asm) deinit_loop.simps) (simp add: Let_def)
    then have "m1 = ?m2"
      using True inb by (intro "1.IH" [OF True inb refl refl])
    with m2 show ?thesis by simp
  next
    case False
    with "1.prems" show ?thesis
      by (subst (asm) deinit_loop.simps) simp
  qed
qed

lemma deinit_loop_in_bounds: "n \<le> length bl \<Longrightarrow> deinit_loop bl n b m = Inr m"
proof (induction bl n b m rule: deinit_loop.induct)
  case (1 bl n b m)
  show ?case
  proof (cases "b < n")
    case True
    then have inb: "\<not> length bl \<le> b"
      using "1.prems" by simp
    let ?m1 = "if sensor (bl ! b) = None then kfree_sensors (sensor (bl ! b)) m else m"
    let ?m2 = "if powr (bl ! b) = None then kfree_powrs (powr (bl ! b)) ?m1 else ?m1"
    have m2: "?m2 = m"
      by (simp add: kfree_sensors_def kfree_powrs_def)
    have "deinit_loop bl n (b + 1) ?m2 = Inr ?m2"
      using "1.prems" by (intro "1.IH" [OF True inb refl refl])
    then show ?thesis
      using True inb m2 by (subst deinit_loop.simps) (simp add: Let_def)
  next
    case False
    then show ?thesis
      by (subst deinit_loop.simps) simp
  qed
qed

lemma abort_result:
  assumes "blocks (data r) = Some bl" and "abort ret m r = Inr x"
  shows "x = Stop ret (kfree_blocks (Some bl) m) zero_resp"
  using assms
  by (auto simp: abort_def deinit_occ_resp_buf_def split: sum.splits dest: deinit_loop_returns)

lemma abort_in_bounds:
  assumes "blocks (data r) = Some bl" and "unat (num_of_sensor_blocks (data r)) \<le> length bl"
  shows "abort ret m r = Inr (Stop ret (kfree_blocks (Some bl) m) zero_resp)"
  using assms by (simp add: abort_def deinit_occ_resp_buf_def deinit_loop_in_bounds)

lemma rds_descriptor_bound:
  "rds d [dnum + 4, dnum + 5, dnum + 6, dnum + 7] = Inr c \<Longrightarrow> dnum + 8 \<le> length d"
  by (auto simp: rd_def split: if_splits sum.splits)

lemma parse_block_reads:
  assumes "parse_block d b dnum m r = Inr x"
  shows "dnum + 8 \<le> length d \<and> (\<exists>bl. blocks (data r) = Some bl \<and> b < length bl)"
proof -
  from assms obtain ty where "strncpy d dnum 4 = Inr ty"
    unfolding parse_block_def by (cases "strncpy d dnum 4") simp_all
  with assms obtain blk0 where g: "get_block r b = Inr blk0"
    unfolding parse_block_def by (cases "get_block r b") simp_all
  with assms \<open>strncpy d dnum 4 = Inr ty\<close>
  obtain c where "rds d [dnum + 4, dnum + 5, dnum + 6, dnum + 7] = Inr c"
    unfolding parse_block_def
    by (cases "rds d [dnum + 4, dnum + 5, dnum + 6, dnum + 7]") simp_all
  then have "dnum + 8 \<le> length d"
    by (rule rds_descriptor_bound)
  moreover from g have "\<exists>bl. blocks (data r) = Some bl \<and> b < length bl"
    by (auto simp: get_block_def split: option.splits if_splits)
  ultimately show ?thesis by simp
qed

lemma blocks_set_block:
  "blocks (data r) = Some bl \<Longrightarrow> blocks (data (set_block r b blk)) = Some (bl[b := blk])"
  by (simp add: set_block_def)

lemma parse_block_result:
  assumes "parse_block d b dnum m r = Inr x" and "blocks (data r) = Some bl"
  shows "(\<exists>dnum1 m1 r1 blk. x = Next dnum1 m1 r1 \<and> live_block_arrays m1 = live_block_arrays m
            \<and> blocks (data r1) = Some (bl[b := blk])
            \<and> num_of_sensor_blocks (data r1) = num_of_sensor_blocks (data r))
         \<or> (\<exists>m1. x = Stop (- ENOMEM) m1 zero_resp
            \<and> live_block_arrays m1 = live_block_arrays m - 1)"
proof -
  from parse_block_reads [OF assms(1)] assms(2)
  have hd: "dnum + 8 \<le> length d" and b: "b < length bl"
    by simp_all
  have ab: "abort ret m1 (set_block r b blk) = Inr y \<Longrightarrow>
      y = Stop ret (kfree_blocks (Some (bl[b := blk])) m1) zero_resp" for ret m1 blk y
    by (rule abort_result [OF blocks_set_block [OF assms(2)]])
  have sb: "num_of_sensor_blocks (data (set_block r b blk)) = num_of_sensor_blocks (data r)" for blk
    by (simp add: set_block_def)
  show ?thesis
    using assms(1) unfolding parse_block_unfold [OF hd assms(2) b] Let_def
    by (auto simp: kzalloc_sensors_def kzalloc_powrs_def kfree_blocks_def
          blocks_set_block [OF assms(2)] sb
        split: if_splits sum.splits prod.splits dest!: ab)
qed

lemma block_loop_result:
  assumes "block_loop d b dnum m r = Inr (ret, m1, r1)" and "blocks (data r) \<noteq> None"
  shows "(ret = 0 \<and> live_block_arrays m1 = live_block_arrays m \<and> blocks (data r1) \<noteq> None)
         \<or> (ret = - ENOMEM \<and> r1 = zero_resp \<and> live_block_arrays m1 = live_block_arrays m - 1)"
  using assms
proof (induction d b dnum m r rule: block_loop.induct)
  case (1 d b dnum m r)
  show ?case
  proof (cases "b < unat (num_of_sensor_blocks (data r))")
    case False
    with "1.prems" show ?thesis
      by (simp add: block_loop_done)
  next
    case True
    from "1.prems"(2) obtain bl where bl: "blocks (data r) = Some bl"
      by auto
    from "1.prems"(1) True obtain x where x: "parse_block d b dnum m r = Inr x"
      by (cases "parse_block d b dnum m r") (simp_all add: block_loop_step)
    from parse_block_result [OF x bl] show ?thesis
    proof (elim disjE exE conjE)
      fix dnum1 m2 r2 blk
      assume nx: "x = Next dnum1 m2 r2" and lv: "live_block_arrays m2 = live_block_arrays m"
        and b2: "blocks (data r2) = Some (bl[b := blk])"
      have "block_loop d (b + 1) dnum1 m2 r2 = Inr (ret, m1, r1)"
        using "1.prems"(1) True x nx by (simp add: block_loop_step)
      moreover have "blocks (data r2) \<noteq> None"
        using b2 by simp
      ultimately show ?thesis
        using "1.IH" [OF True x nx] lv by simp
    next
      fix m2
      assume st: "x = Stop (- ENOMEM) m2 zero_resp"
        and lv: "live_block_arrays m2 = live_block_arrays m - 1"
      with "1.prems"(1) True x show ?thesis
        by (simp add: block_loop_step)
    qed
  qed
qed

lemma parse_header_blocks: "parse_header d r = Inr r1 \<Longrightarrow> blocks (data r1) = blocks (data r)"
  by (auto simp: parse_header_def split: sum.splits)

text \<open>
  Claim C4, as amended. When \<^verbatim>\<open>parse_occ_response\<close> returns a non-zero value, either it is
  \<open>-1\<close> (marker mismatch or zero block count): nothing was allocated, the \<^verbatim>\<open>blocks\<close> pointer
  is the one the caller passed in, and the caller's structure holds the header fields that
  were parsed; or it is \<open>-ENOMEM\<close>: the \<^verbatim>\<open>blocks\<close> pointer is \<^verbatim>\<open>NULL\<close>, no block array
  stays allocated, and the structure is either the parsed header (the block array could
  not be allocated) or all zero (a per-block array could not be allocated and
  \<^verbatim>\<open>deinit_occ_resp_buf\<close> has run).
\<close>

theorem failed_decode_state:
  assumes "parse_occ_response d m r = Inr (ret, m1, r1)" and "ret \<noteq> 0"
  shows "(ret = - 1 \<and> m1 = m \<and> parse_header d r = Inr r1
            \<and> blocks (data r1) = blocks (data r))
         \<or> (ret = - ENOMEM \<and> blocks (data r1) = None
            \<and> live_block_arrays m1 = live_block_arrays m
            \<and> (r1 = zero_resp
               \<or> (\<exists>r0. parse_header d r = Inr r0 \<and> r1 = r0\<lparr>data := (data r0)\<lparr>blocks := None\<rparr>\<rparr>)))"
proof -
  from assms(1) obtain r0 where r0: "parse_header d r = Inr r0"
    unfolding parse_occ_response_def by (cases "parse_header d r") simp_all
  note hb = parse_header_blocks [OF r0]
  let ?n = "unat (num_of_sensor_blocks (data r0))"
  show ?thesis
  proof (cases "\<not> strcmp_eq (sensor_eye_catcher (data r0)) str_SENSOR
                \<or> num_of_sensor_blocks (data r0) = 0")
    case True
    then have "parse_occ_response d m r = Inr (- 1, m, r0)"
      using r0 by (auto simp: parse_occ_response_def)
    with assms(1) r0 hb show ?thesis
      by simp
  next
    case False
    show ?thesis
    proof (cases "alloc_ok m (kcalls m)")
      case no: False
      with assms(1) r0 False show ?thesis
        by (auto simp: parse_occ_response_def kzalloc_blocks_def)
    next
      case ok: True
      let ?m2 = "m\<lparr>kcalls := kcalls m + 1, live_block_arrays := live_block_arrays m + 1\<rparr>"
      let ?r2 = "r0\<lparr>data := (data r0)\<lparr>blocks := Some (replicate ?n zero_block)\<rparr>\<rparr>"
      have "block_loop d 0 45 ?m2 ?r2 = Inr (ret, m1, r1)"
        using assms(1) r0 False ok by (simp add: parse_occ_response_def kzalloc_blocks_def)
      from block_loop_result [OF this] assms(2)
      have "ret = - ENOMEM \<and> r1 = zero_resp \<and> live_block_arrays m1 = live_block_arrays m"
        by simp
      then show ?thesis
        by (simp add: zero_resp_def zero_poll_data_def)
    qed
  qed
qed

lemma parse_block_temp_nomem':
  assumes "blocks (data r) \<noteq> None" and "b < length (the (blocks (data r)))"
    and "dnum + 8 \<le> length d"
    and "drop 4 (sensor_type (the (blocks (data r)) ! b)) = [0]"
    and "take 4 (drop dnum d) = str_TEMP"
    and "d ! (dnum + 7) \<noteq> 0" and "d ! (dnum + 6) \<noteq> 0"
    and "\<not> alloc_ok m (kcalls m)"
    and "unat (num_of_sensor_blocks (data r)) \<le> length (the (blocks (data r)))"
  shows "parse_block d b dnum m r =
     Inr (Stop (- ENOMEM)
            (m\<lparr>kcalls := kcalls m + 1, live_block_arrays := live_block_arrays m - 1\<rparr>)
            zero_resp)"
proof -
  from assms(1) obtain bl where bl: "blocks (data r) = Some bl"
    by auto
  let ?blk = "block_head d dnum (bl ! b)"
  have b: "b < length bl" and z: "drop 4 (sensor_type (bl ! b)) = [0]"
    and n: "unat (num_of_sensor_blocks (data r)) \<le> length bl"
    using assms(2,4,9) bl by simp_all
  have f: "num_of_sensors ?blk = d ! (dnum + 7)" "sensor_length ?blk = d ! (dnum + 6)"
    by (simp_all add: block_head_def)
  have n0: "unat (d ! (dnum + 7)) \<noteq> 0"
    using assms(6) by (simp add: unat_eq_0)
  have tags: "\<not> strcmp_eq (sensor_type ?blk) str_FREQ" "strcmp_eq (sensor_type ?blk) str_TEMP"
    using assms(5) by (simp_all add: tag_tests [OF assms(3) z] str_distinct)
  have ab: "abort (- ENOMEM) (m\<lparr>kcalls := kcalls m + 1\<rparr>) (set_block r b (?blk\<lparr>sensor := None\<rparr>)) =
      Inr (Stop (- ENOMEM)
            (kfree_blocks (Some (bl[b := ?blk\<lparr>sensor := None\<rparr>])) (m\<lparr>kcalls := kcalls m + 1\<rparr>))
            zero_resp)"
    using n by (intro abort_in_bounds) (simp_all add: set_block_def bl)
  show ?thesis
    unfolding parse_block_unfold [OF assms(3) bl b] Let_def
    using n0 assms(7,8) ab by (simp add: f tags kzalloc_sensors_def kfree_blocks_def)
qed

theorem failed_decode_state_witness:
  "parse_occ_response (occ_buffer sandwich_init) (kmem_ok\<lparr>alloc_ok := \<lambda>k. k < 2\<rparr>) zero_resp =
     Inr (- ENOMEM,
          \<lparr>alloc_ok = \<lambda>k. k < 2, kcalls = 3, live_block_arrays = 0, live_sensor_arrays = 1,
           live_powr_arrays = 0\<rparr>,
          zero_resp)
   \<and> - ENOMEM \<noteq> 0
   \<and> blocks (data zero_resp) = None
   \<and> live_block_arrays \<lparr>alloc_ok = \<lambda>k. k < 2, kcalls = 3, live_block_arrays = 0,
        live_sensor_arrays = 1, live_powr_arrays = 0\<rparr>
      = live_block_arrays (kmem_ok\<lparr>alloc_ok := \<lambda>k. k < 2\<rparr>)"
proof -
  have ev: "parse_occ_response (occ_buffer sandwich_init) (kmem_ok\<lparr>alloc_ok := \<lambda>k. k < 2\<rparr>) zero_resp =
     Inr (- ENOMEM,
          \<lparr>alloc_ok = \<lambda>k. k < 2, kcalls = 3, live_block_arrays = 0, live_sensor_arrays = 1,
           live_powr_arrays = 0\<rparr>,
          zero_resp)"
    by (simp add: exec_simps buffer_simps parse_block_temp_nomem' sandwich_len sandwich_init_def)
  have ne: "- ENOMEM \<noteq> 0"
    by (simp add: ENOMEM_def)
  from failed_decode_state [OF ev ne] ev ne show ?thesis
    by (auto simp: ENOMEM_def)
qed

text \<open>
  Claim C4 as stated fails: on the sample with the first marker byte changed the decode
  returns \<open>-1\<close>, and the caller's structure, all zero before the call, holds the header
  fields of the frame (sequence number \<open>0x69\<close>, block count 4, ...).
\<close>

theorem failed_decode_counterexample:
  "parse_occ_response (occ_buffer (fake_occ_rsp_init[37 := 0x58])) kmem_ok zero_resp =
     Inr (- 1, kmem_ok,
          zero_resp\<lparr>sequence_num := 0x69, data_length := 0xa4,
            data := zero_poll_data\<lparr>status := 0xc3, occs_present := 3, occ_state := 1,
              occ_code_level := [0x6f, 0x70, 0x5f, 0x6f, 0x63, 0x63, 0x5f, 0x31, 0x35, 0x30,
                                 0x37, 0x31, 0x36, 0x61, 0, 0, 0],
              sensor_eye_catcher := [0x58, 0x45, 0x4e, 0x53, 0x4f, 0x52, 0],
              num_of_sensor_blocks := 4, sensor_data_version := 1\<rparr>\<rparr>)
   \<and> sequence_num zero_resp \<noteq> 0x69
   \<and> num_of_sensor_blocks (data zero_resp) \<noteq> 4"
  by (simp add: exec_simps buffer_simps fake_occ_rsp_init_def)

lemma sandwich_update:
  "occ_update_device True 5 (occ_buffer sandwich_init) kmem_ok drv_init =
     Inr (0, kmem_ok\<lparr>kcalls := 3, live_block_arrays := 1, live_sensor_arrays := 2\<rparr>,
          \<lparr>valid = True, last_updated = 5, sample_time = 0,
           occ_resp = zero_resp\<lparr>data := sandwich_hdr
                        \<lparr>blocks := Some [sandwich_B0, sandwich_B1, sandwich_B2]\<rparr>,
                        temp_block_id := 2\<rparr>\<rparr>)"
proof -
  have len: "5 \<le> length (occ_buffer sandwich_init)"
    by (simp add: length_occ_buffer sandwich_len OCC_DATA_MAX_def)
  have lenv: "get_occdata_length (occ_buffer sandwich_init) = Inr 0"
    by (simp add: get_occdata_length_in_bounds [OF len] nth_occ_buffer sandwich_len)
       (simp add: sandwich_init_def be16_def)
  have "parse_occ_response (occ_buffer sandwich_init) kmem_ok zero_resp =
     Inr (0, kmem_ok\<lparr>kcalls := 3, live_block_arrays := 1, live_sensor_arrays := 2\<rparr>,
          zero_resp\<lparr>data := sandwich_hdr
            \<lparr>blocks := Some [sandwich_B0, sandwich_B1, sandwich_B2]\<rparr>, temp_block_id := 2\<rparr>)"
    by (simp add: exec_simps buffer_simps sandwich_defs)
  then show ?thesis
    by (simp add: occ_update_device_def drv_init_def deinit_occ_resp_buf_def occ_get_all_def
        lenv zero_resp_def zero_poll_data_def)
qed

text \<open>The digits of a number below \<open>10 ^ k\<close> are at most \<open>k\<close>.\<close>

lemma length_dec_digits: "0 < k \<Longrightarrow> n < 10 ^ k \<Longrightarrow> length (dec_digits n) \<le> k"
proof (induction k arbitrary: n)
  case 0
  then show ?case by simp
next
  case (Suc k)
  show ?case
  proof (cases "n < 10")
    case True
    then show ?thesis
      by (subst dec_digits.simps) simp
  next
    case False
    then have k: "0 < k"
      using Suc.prems(2) by (cases k) simp_all
    have "n div 10 < 10 ^ k"
      using Suc.prems(2) by (simp add: less_mult_imp_div_less mult.commute)
    from Suc.IH [OF k this] False show ?thesis
      by (subst dec_digits.simps) simp
  qed
qed

lemma length_format_u16: "length (format_d (uint (w :: u16))) \<le> 5"
proof -
  have "unat w < 65536"
    using unsigned_less [of w] by simp
  then have "unat w < 10 ^ 5"
    by simp
  then have "length (dec_digits (unat w)) \<le> 5"
    by (intro length_dec_digits) simp_all
  then show ?thesis
    by (simp add: format_d_def)
qed

lemma sprintf_fits:
  "length text < length buf \<Longrightarrow>
   sprintf buf text = Inr (int (length text), text @ 0 # drop (length text + 1) buf)"
  by (simp add: sprintf_def)

text \<open>
  Claim C6, as amended. Let the driver hold, after \<^verbatim>\<open>occ_update_device\<close>, a response whose
  block \<^verbatim>\<open>temp_block_id\<close> exists and has the sensor array \<open>arr\<close>, and let \<open>buf\<close> have room for
  18 bytes. For a 1-based index \<open>n\<close> with \<open>1 \<le> n \<le> length arr\<close>, \<^verbatim>\<open>show_occ_temp\<close> writes
  the decimal value of record \<open>n - 1\<close>, a newline and a NUL into \<open>buf\<close>, and
  \<^verbatim>\<open>show_occ_temp_label\<close> writes \<open>sensor id: \<close>, the decimal sensor id of record \<open>n - 1\<close>, a
  newline and a NUL; each returns the length of its text without the NUL. The code has no
  range check and no empty result: for any other \<open>n\<close> the element \<open>n - 1\<close> outside the array
  is read.
\<close>

theorem temp_lookup:
  assumes "occ_update_device expired jiffies fake m dd = Inr (ret, m1, dd1)"
    and "blocks (data (occ_resp dd1)) = Some bl"
    and "unat (temp_block_id (occ_resp dd1)) < length bl"
    and "sensor (bl ! unat (temp_block_id (occ_resp dd1))) = Some arr"
    and "18 \<le> length buf"
  shows "show_occ_temp expired jiffies fake m dd buf n =
           (if 1 \<le> n \<and> n \<le> int (length arr)
            then Inr (int (length (format_d (uint (sensor_value (arr ! nat (n - 1)))) @ [0x0a])),
                      (format_d (uint (sensor_value (arr ! nat (n - 1)))) @ [0x0a])
                        @ 0 # drop (length (format_d (uint (sensor_value (arr ! nat (n - 1))))
                                         @ [0x0a]) + 1) buf,
                      m1, dd1)
            else Inl (BadIndex (n - 1)))
         \<and> show_occ_temp_label expired jiffies fake m dd buf n =
           (if 1 \<le> n \<and> n \<le> int (length arr)
            then Inr (int (length (str_sensor_id @ format_d (uint (sensor_id (arr ! nat (n - 1))))
                                     @ [0x0a])),
                      (str_sensor_id @ format_d (uint (sensor_id (arr ! nat (n - 1)))) @ [0x0a])
                        @ 0 # drop (length (str_sensor_id
                                         @ format_d (uint (sensor_id (arr ! nat (n - 1))))
                                         @ [0x0a]) + 1) buf,
                      m1, dd1)
            else Inl (BadIndex (n - 1)))"
proof -
  have ts: "temp_sensor (occ_resp dd1) n =
      (if 1 \<le> n \<and> n \<le> int (length arr) then Inr (arr ! nat (n - 1))
       else Inl (BadIndex (n - 1)))"
    using assms(2-4) by (auto simp: temp_sensor_def)
  have v: "length (format_d (uint (w :: u16)) @ [0x0a]) < length buf" for w
    using length_format_u16 [of w] assms(5) by simp
  have l: "length (str_sensor_id @ format_d (uint (w :: u16)) @ [0x0a]) < length buf" for w
    using length_format_u16 [of w] assms(5) by (simp add: str_sensor_id_def)
  show ?thesis
    using assms(1)
    by (simp add: show_occ_temp_def show_occ_temp_label_def ts sprintf_fits [OF v]
        sprintf_fits [OF l])
qed

theorem temp_lookup_witness:
  "occ_update_device True 5 (occ_buffer sandwich_init) kmem_ok drv_init =
     Inr (0, kmem_ok\<lparr>kcalls := 3, live_block_arrays := 1, live_sensor_arrays := 2\<rparr>,
          \<lparr>valid = True, last_updated = 5, sample_time = 0,
           occ_resp = zero_resp\<lparr>data := sandwich_hdr
                        \<lparr>blocks := Some [sandwich_B0, sandwich_B1, sandwich_B2]\<rparr>,
                        temp_block_id := 2\<rparr>\<rparr>)
   \<and> sensor ([sandwich_B0, sandwich_B1, sandwich_B2] ! 2) =
       Some [\<lparr>sensor_id = 0x6d, sensor_value = 0x13\<rparr>, \<lparr>sensor_id = 0x6e, sensor_value = 0x14\<rparr>]
   \<and> 18 \<le> length (replicate 4096 (0 :: byte))
   \<and> show_occ_temp True 5 (occ_buffer sandwich_init) kmem_ok drv_init (replicate 4096 0) 2 =
       Inr (3, [0x32, 0x30, 0x0a, 0] @ replicate 4092 0,
          kmem_ok\<lparr>kcalls := 3, live_block_arrays := 1, live_sensor_arrays := 2\<rparr>,
          \<lparr>valid = True, last_updated = 5, sample_time = 0,
           occ_resp = zero_resp\<lparr>data := sandwich_hdr
                        \<lparr>blocks := Some [sandwich_B0, sandwich_B1, sandwich_B2]\<rparr>,
                        temp_block_id := 2\<rparr>\<rparr>)
   \<and> show_occ_temp_label True 5 (occ_buffer sandwich_init) kmem_ok drv_init (replicate 4096 0) 2 =
       Inr (15, [0x73, 0x65, 0x6e, 0x73, 0x6f, 0x72, 0x20, 0x69, 0x64, 0x3a, 0x20,
                 0x31, 0x31, 0x30, 0x0a, 0] @ replicate 4080 0,
          kmem_ok\<lparr>kcalls := 3, live_block_arrays := 1, live_sensor_arrays := 2\<rparr>,
          \<lparr>valid = True, last_updated = 5, sample_time = 0,
           occ_resp = zero_resp\<lparr>data := sandwich_hdr
                        \<lparr>blocks := Some [sandwich_B0, sandwich_B1, sandwich_B2]\<rparr>,
                        temp_block_id := 2\<rparr>\<rparr>)"
proof -
  let ?arr = "[\<lparr>sensor_id = 0x6d, sensor_value = 0x13\<rparr>, \<lparr>sensor_id = 0x6e, sensor_value = 0x14\<rparr>]"
  let ?bl = "[sandwich_B0, sandwich_B1, sandwich_B2]"
  let ?r = "zero_resp\<lparr>data := sandwich_hdr\<lparr>blocks := Some ?bl\<rparr>, temp_block_id := 2\<rparr>"
  let ?dd = "\<lparr>valid = True, last_updated = 5, sample_time = 0, occ_resp = ?r\<rparr>"
  have h2: "blocks (data (occ_resp ?dd)) = Some ?bl"
    by simp
  have h3: "unat (temp_block_id (occ_resp ?dd)) < length ?bl"
    by simp
  have h4: "sensor (?bl ! unat (temp_block_id (occ_resp ?dd))) = Some ?arr"
    by (simp add: sandwich_B2_def)
  have h5: "18 \<le> length (replicate 4096 (0 :: byte))"
    by simp
  have t: "format_d 20 = [0x32, 0x30]" "format_d 110 = [0x31, 0x31, 0x30]"
    by (simp_all add: format_d_def dec_digits.simps)
  from temp_lookup [OF sandwich_update h2 h3 h4 h5, of 2] sandwich_update h4
  show ?thesis
    by (simp add: t str_sensor_id_def)
qed

text \<open>
  Claim C6 as stated fails: the sandwich frame decodes to a temperature block of two
  records, and the attributes \<^verbatim>\<open>temp3_input\<close> and \<^verbatim>\<open>temp3_label\<close> (index 3) read element 2 of
  that array.
\<close>

theorem temp_lookup_counterexample:
  "show_occ_temp True 5 (occ_buffer sandwich_init) kmem_ok drv_init (replicate 4096 0) 3 =
     Inl (BadIndex 2)
   \<and> show_occ_temp_label True 5 (occ_buffer sandwich_init) kmem_ok drv_init (replicate 4096 0) 3 =
     Inl (BadIndex 2)"
  by (simp add: show_occ_temp_def show_occ_temp_label_def sandwich_update temp_sensor_def
      sandwich_B2_def)

subsection \<open>Reads inside the buffer\<close>

lemma abort_set_block:
  assumes "blocks (data r) = Some bl" and "unat (num_of_sensor_blocks (data r)) \<le> length bl"
  shows "abort ret m1 (set_block r b blk) =
           Inr (Stop ret (kfree_blocks (Some (bl[b := blk])) m1) zero_resp)"
  using assms by (intro abort_in_bounds) (simp_all add: set_block_def)

lemma parse_block_nomem:
  assumes "dnum + 8 \<le> length d" and "blocks (data r) = Some bl" and "b < length bl"
    and "drop 4 (sensor_type (bl ! b)) = [0]"
    and "take 4 (drop dnum d) = str_FREQ \<or> take 4 (drop dnum d) = str_TEMP
         \<or> take 4 (drop dnum d) = str_POWR"
    and "d ! (dnum + 7) \<noteq> 0" and "d ! (dnum + 6) \<noteq> 0"
    and "\<not> alloc_ok m (kcalls m)"
    and "unat (num_of_sensor_blocks (data r)) \<le> length bl"
  shows "\<exists>m1. parse_block d b dnum m r = Inr (Stop (- ENOMEM) m1 zero_resp)"
proof -
  let ?blk = "block_head d dnum (bl ! b)"
  have f: "num_of_sensors ?blk = d ! (dnum + 7)" "sensor_length ?blk = d ! (dnum + 6)"
    by (simp_all add: block_head_def)
  have n0: "unat (d ! (dnum + 7)) \<noteq> 0"
    using assms(6) by (simp add: unat_eq_0)
  note ab = abort_set_block [OF assms(2,9)]
  show ?thesis
    unfolding parse_block_unfold [OF assms(1-3)] Let_def
    using n0 assms(5,7,8)
    by (auto simp: f tag_tests [OF assms(1,4)] str_distinct kzalloc_sensors_def
        kzalloc_powrs_def ab)
qed

lemma block_loop_in_bounds:
  assumes "blocks_in_bounds d k dnum" and "blocks (data r) = Some bl"
    and "length bl = unat (num_of_sensor_blocks (data r))" and "b + k = length bl"
    and "\<forall>j. b \<le> j \<and> j < length bl \<longrightarrow> bl ! j = zero_block"
  shows "(\<exists>res. block_loop d b dnum m r = Inr res) \<or> block_loop d b dnum m r = Inl NullDeref"
  using assms
proof (induction k arbitrary: b dnum m r bl)
  case 0
  then show ?case by (simp add: block_loop_done)
next
  case (Suc k)
  let ?len = "unat (d ! (dnum + 6))" and ?n = "unat (d ! (dnum + 7))"
  let ?tag = "take 4 (drop dnum d)"
  have hd: "dnum + 8 \<le> length d"
    using Suc.prems(1) by simp
  have b: "b < length bl" and lt: "b < unat (num_of_sensor_blocks (data r))"
    using Suc.prems(3,4) by simp_all
  have zb: "bl ! b = zero_block"
    using Suc.prems(5) b by simp
  then have z: "drop 4 (sensor_type (bl ! b)) = [0]" and sn: "sensor (bl ! b) = None"
    by (simp_all add: zero_block_def)
  have N: "unat (num_of_sensor_blocks (data r)) \<le> length bl"
    using Suc.prems(3) by simp
  note bl = Suc.prems(2)
  have cont: "(\<exists>res. block_loop d (b + 1) dnum1 m1 r1 = Inr res)
              \<or> block_loop d (b + 1) dnum1 m1 r1 = Inl NullDeref"
    if "blocks_in_bounds d k dnum1" and "blocks (data r1) = Some (bl[b := blk])"
      and "num_of_sensor_blocks (data r1) = num_of_sensor_blocks (data r)"
    for dnum1 m1 r1 blk
    using that Suc.prems(3,4,5) by (intro Suc.IH [where bl = "bl[b := blk]"]) simp_all
  have step: "block_loop d b dnum m r =
     (case parse_block d b dnum m r of
        Inl f \<Rightarrow> Inl f
      | Inr (Stop ret m1 r1) \<Rightarrow> Inr (ret, m1, r1)
      | Inr (Next dnum1 m1 r1) \<Rightarrow> block_loop d (b + 1) dnum1 m1 r1)"
    using lt by (rule block_loop_step)
  consider (empty) "?n = 0 \<or> ?len = 0"
    | (val) "?n \<noteq> 0" "?len \<noteq> 0" "?tag = str_FREQ \<or> ?tag = str_TEMP"
    | (pow) "?n \<noteq> 0" "?len \<noteq> 0" "?tag = str_POWR"
    | (unk) "?n \<noteq> 0" "?len \<noteq> 0" "?tag \<noteq> str_FREQ" "?tag \<noteq> str_TEMP" "?tag \<noteq> str_POWR"
    by blast
  then show ?case
  proof cases
    case empty
    then have e: "d ! (dnum + 7) = 0 \<or> d ! (dnum + 6) = 0"
      by (simp add: unat_eq_0)
    have nx: "blocks_in_bounds d k (dnum + 8)"
      using Suc.prems(1) empty by (auto simp: Let_def)
    have "block_loop d b dnum m r =
        block_loop d (b + 1) (dnum + 8) m (set_block r b (block_head d dnum (bl ! b)))"
      unfolding step parse_block_empty [OF hd bl b e] by simp
    moreover have "(\<exists>res. block_loop d (b + 1) (dnum + 8) m
          (set_block r b (block_head d dnum (bl ! b))) = Inr res)
        \<or> block_loop d (b + 1) (dnum + 8) m
          (set_block r b (block_head d dnum (bl ! b))) = Inl NullDeref"
      using nx by (rule cont) (simp_all add: set_block_def bl)
    ultimately show ?thesis by simp
  next
    case unk
    have nx: "blocks_in_bounds d k (dnum + 8)"
      using Suc.prems(1) unk by (simp add: Let_def)
    have "block_loop d b dnum m r =
        block_loop d (b + 1) (dnum + 8) m (set_block r b (block_head d dnum (bl ! b)))"
      unfolding step parse_block_unknown [OF hd bl b z unk(3-5)] by simp
    moreover have "(\<exists>res. block_loop d (b + 1) (dnum + 8) m
          (set_block r b (block_head d dnum (bl ! b))) = Inr res)
        \<or> block_loop d (b + 1) (dnum + 8) m
          (set_block r b (block_head d dnum (bl ! b))) = Inl NullDeref"
      using nx by (rule cont) (simp_all add: set_block_def bl)
    ultimately show ?thesis by simp
  next
    case pow
    have n0: "d ! (dnum + 7) \<noteq> 0" "d ! (dnum + 6) \<noteq> 0"
      using pow(1,2) by (auto simp: unat_eq_0)
    have fit: "dnum + 20 \<le> length d"
      using Suc.prems(1) pow by (simp add: Let_def str_distinct)
    show ?thesis
    proof (cases "alloc_ok m (kcalls m)")
      case True
      have "parse_block d b dnum m r = Inl NullDeref"
        using hd bl b z sn pow(3) n0 True fit by (rule parse_block_powr)
      then show ?thesis
        unfolding step by simp
    next
      case False
      from parse_block_nomem [OF hd bl b z _ n0 False N] pow(3)
      obtain m1 where "parse_block d b dnum m r = Inr (Stop (- ENOMEM) m1 zero_resp)"
        by auto
      then show ?thesis
        unfolding step by simp
    qed
  next
    case val
    have n0: "d ! (dnum + 7) \<noteq> 0" "d ! (dnum + 6) \<noteq> 0"
      using val(1,2) by (auto simp: unat_eq_0)
    have fit: "dnum + 8 + (?n - 1) * ?len + 4 \<le> length d"
      and nx: "blocks_in_bounds d k (dnum + 8 + ?n * ?len)"
      using Suc.prems(1) val by (auto simp: Let_def)
    show ?thesis
    proof (cases "alloc_ok m (kcalls m)")
      case False
      from parse_block_nomem [OF hd bl b z _ n0 False N] val(3)
      obtain m1 where "parse_block d b dnum m r = Inr (Stop (- ENOMEM) m1 zero_resp)"
        by auto
      then show ?thesis
        unfolding step by simp
    next
      case True
      from val(3) show ?thesis
      proof
        assume t: "?tag = str_FREQ"
        let ?m1 = "m\<lparr>kcalls := kcalls m + 1, live_sensor_arrays := live_sensor_arrays m + 1\<rparr>"
        let ?blk = "(block_head d dnum (bl ! b))
              \<lparr>sensor := Some (map (\<lambda>j. value_record d (dnum + 8 + j * ?len)) [0..<?n])\<rparr>"
        let ?r1 = "(set_block r b ?blk)\<lparr>freq_block_id := of_nat b\<rparr>"
        have "block_loop d b dnum m r = block_loop d (b + 1) (dnum + 8 + ?n * ?len) ?m1 ?r1"
          unfolding step parse_block_freq [OF hd bl b z t n0 True fit] by simp
        moreover have "(\<exists>res. block_loop d (b + 1) (dnum + 8 + ?n * ?len) ?m1 ?r1 = Inr res)
            \<or> block_loop d (b + 1) (dnum + 8 + ?n * ?len) ?m1 ?r1 = Inl NullDeref"
          using nx by (rule cont) (simp_all add: set_block_def bl)
        ultimately show ?thesis by simp
      next
        assume t: "?tag = str_TEMP"
        let ?m1 = "m\<lparr>kcalls := kcalls m + 1, live_sensor_arrays := live_sensor_arrays m + 1\<rparr>"
        let ?blk = "(block_head d dnum (bl ! b))
              \<lparr>sensor := Some (map (\<lambda>j. value_record d (dnum + 8 + j * ?len)) [0..<?n])\<rparr>"
        let ?r1 = "(set_block r b ?blk)\<lparr>temp_block_id := of_nat b\<rparr>"
        have "block_loop d b dnum m r = block_loop d (b + 1) (dnum + 8 + ?n * ?len) ?m1 ?r1"
          unfolding step parse_block_temp [OF hd bl b z t n0 True fit] by simp
        moreover have "(\<exists>res. block_loop d (b + 1) (dnum + 8 + ?n * ?len) ?m1 ?r1 = Inr res)
            \<or> block_loop d (b + 1) (dnum + 8 + ?n * ?len) ?m1 ?r1 = Inl NullDeref"
          using nx by (rule cont) (simp_all add: set_block_def bl)
        ultimately show ?thesis by simp
      qed
    qed
  qed
qed

text \<open>
  Claim C1, as amended. \<^verbatim>\<open>parse_occ_response\<close> takes no length and checks no bound. When the
  buffer holds the fixed header and every descriptor and record window that the block loop
  reaches, no byte outside the buffer is read: the decode returns, or ends in the \<^verbatim>\<open>NULL\<close>
  read of a POWR block with records.
\<close>

theorem in_bounds_frame_no_oob:
  assumes "frame_in_bounds d"
  shows "(\<exists>res. parse_occ_response d m r = Inr res) \<or> parse_occ_response d m r = Inl NullDeref"
proof -
  have len: "45 \<le> length d"
    using assms by (simp add: frame_in_bounds_def)
  obtain r0 where r0: "parse_header d r = Inr r0"
    using len by (simp add: parse_header_in_bounds)
  have nb: "num_of_sensor_blocks (data r0) = d ! 43"
    using r0 len by (auto simp: parse_header_in_bounds)
  show ?thesis
  proof (cases "take 6 (drop 37 d) = str_SENSOR \<and> d ! 43 \<noteq> 0 \<and> alloc_ok m (kcalls m)")
    case False
    then show ?thesis
      using r0 nb marker_test [OF len r0]
      by (auto simp: parse_occ_response_def kzalloc_blocks_def)
  next
    case True
    let ?m1 = "m\<lparr>kcalls := kcalls m + 1, live_block_arrays := live_block_arrays m + 1\<rparr>"
    let ?bl = "replicate (unat (d ! 43)) zero_block"
    let ?r2 = "r0\<lparr>data := (data r0)\<lparr>blocks := Some ?bl\<rparr>\<rparr>"
    have "parse_occ_response d m r = block_loop d 0 45 ?m1 ?r2"
      using True r0 nb marker_test [OF len r0]
      by (simp add: parse_occ_response_def kzalloc_blocks_def)
    moreover have "blocks_in_bounds d (unat (d ! 43)) 45"
      using assms True by (simp add: frame_in_bounds_def)
    then have "(\<exists>res. block_loop d 0 45 ?m1 ?r2 = Inr res)
               \<or> block_loop d 0 45 ?m1 ?r2 = Inl NullDeref"
      by (rule block_loop_in_bounds [where bl = ?bl]) (simp_all add: nb)
    ultimately show ?thesis by simp
  qed
qed

lemma blocks_in_bounds_numeral:
  "blocks_in_bounds d (numeral k) dnum =
     (dnum + 8 \<le> length d \<and>
      (let len = unat (d ! (dnum + 6)); n = unat (d ! (dnum + 7)); tag = take 4 (drop dnum d)
       in if n = 0 \<or> len = 0 then blocks_in_bounds d (pred_numeral k) (dnum + 8)
          else if tag = str_FREQ \<or> tag = str_TEMP then
            dnum + 8 + (n - 1) * len + 4 \<le> length d
            \<and> blocks_in_bounds d (pred_numeral k) (dnum + 8 + n * len)
          else if tag = str_POWR then dnum + 20 \<le> length d
          else blocks_in_bounds d (pred_numeral k) (dnum + 8)))"
  by (simp add: numeral_eq_Suc)

lemma sensor_loop_oob:
  assumes "length arr = s + k" and "n = s + k" and "j < k"
    and "j = 0 \<or> dnum + (j - 1) * len + 4 \<le> length d"
    and "length d \<le> dnum + j * len"
  shows "sensor_loop d len n s dnum arr = Inl (OOBRead (dnum + j * len))"
  using assms
proof (induction j arbitrary: s k dnum arr)
  case 0
  then show ?case
    by (subst sensor_loop.simps) (simp add: rd_out_of_bounds)
next
  case (Suc j)
  have here: "dnum + 4 \<le> length d"
    using Suc.prems(4) by simp
  have step: "sensor_loop d len n s dnum arr =
      sensor_loop d len n (s + 1) (dnum + len) (arr[s := value_record d dnum])"
    using Suc.prems(1,2,3) here by (intro sensor_loop_step) simp_all
  have rest: "j = 0 \<or> (dnum + len) + (j - 1) * len + 4 \<le> length d"
  proof (cases j)
    case 0
    then show ?thesis by simp
  next
    case (Suc j')
    with Suc.prems(4) show ?thesis by (simp add: algebra_simps)
  qed
  have "sensor_loop d len n (s + 1) (dnum + len) (arr[s := value_record d dnum]) =
      Inl (OOBRead (dnum + len + j * len))"
    using Suc.prems(1,2,3,5) rest by (intro Suc.IH [where k = "k - 1"]) simp_all
  then show ?case
    unfolding step by (simp add: add.assoc)
qed

lemma parse_block_temp_oob':
  assumes "blocks (data r) \<noteq> None" and "b < length (the (blocks (data r)))"
    and "dnum + 8 \<le> length d"
    and "drop 4 (sensor_type (the (blocks (data r)) ! b)) = [0]"
    and "take 4 (drop dnum d) = str_TEMP"
    and "d ! (dnum + 6) \<noteq> 0"
    and "alloc_ok m (kcalls m)"
    and "j < unat (d ! (dnum + 7))"
    and "j = 0 \<or> dnum + 8 + (j - 1) * unat (d ! (dnum + 6)) + 4 \<le> length d"
    and "length d \<le> dnum + 8 + j * unat (d ! (dnum + 6))"
  shows "parse_block d b dnum m r = Inl (OOBRead (dnum + 8 + j * unat (d ! (dnum + 6))))"
proof -
  from assms(1) obtain bl where bl: "blocks (data r) = Some bl"
    by auto
  let ?blk = "block_head d dnum (bl ! b)"
  have b: "b < length bl" and z: "drop 4 (sensor_type (bl ! b)) = [0]"
    using assms(2,4) bl by simp_all
  have f: "num_of_sensors ?blk = d ! (dnum + 7)" "sensor_length ?blk = d ! (dnum + 6)"
    by (simp_all add: block_head_def)
  have n0: "unat (d ! (dnum + 7)) \<noteq> 0"
    using assms(8) by simp
  have tags: "\<not> strcmp_eq (sensor_type ?blk) str_FREQ" "strcmp_eq (sensor_type ?blk) str_TEMP"
    using assms(5) by (simp_all add: tag_tests [OF assms(3) z] str_distinct)
  have loop: "sensor_loop d (unat (d ! (dnum + 6))) (unat (d ! (dnum + 7))) 0 (dnum + 8)
                (replicate (unat (d ! (dnum + 7))) zero_sensor) =
      Inl (OOBRead (dnum + 8 + j * unat (d ! (dnum + 6))))"
    using assms(8-10) by (intro sensor_loop_oob [where k = "unat (d ! (dnum + 7))"]) simp_all
  show ?thesis
    unfolding parse_block_unfold [OF assms(3) bl b] Let_def
    using n0 assms(6,7) by (simp add: f tags kzalloc_sensors_def loop)
qed

lemma strncpy_numeral:
  "strncpy d i (numeral k) =
     (case rd d i of
        Inl f \<Rightarrow> Inl f
      | Inr c \<Rightarrow>
          if c = 0 then Inr (replicate (Suc (pred_numeral k)) 0)
          else (case strncpy d (i + 1) (pred_numeral k) of
                  Inl f \<Rightarrow> Inl f | Inr cs \<Rightarrow> Inr (c # cs)))"
  by (simp add: numeral_eq_Suc)

theorem in_bounds_frame_no_oob_witness:
  "frame_in_bounds sandwich_init
   \<and> length sandwich_init = 89
   \<and> parse_occ_response sandwich_init kmem_ok zero_resp =
       Inr (0, kmem_ok\<lparr>kcalls := 3, live_block_arrays := 1, live_sensor_arrays := 2\<rparr>,
            zero_resp\<lparr>data := sandwich_hdr\<lparr>blocks := Some [sandwich_B0, sandwich_B1, sandwich_B2]\<rparr>,
                      temp_block_id := 2\<rparr>)"
proof -
  have fit: "frame_in_bounds sandwich_init"
    by (simp add: frame_in_bounds_def blocks_in_bounds_numeral sandwich_init_def str_SENSOR_def
        str_FREQ_def str_TEMP_def str_POWR_def Let_def)
  have ev: "parse_occ_response sandwich_init kmem_ok zero_resp =
       Inr (0, kmem_ok\<lparr>kcalls := 3, live_block_arrays := 1, live_sensor_arrays := 2\<rparr>,
            zero_resp\<lparr>data := sandwich_hdr\<lparr>blocks := Some [sandwich_B0, sandwich_B1, sandwich_B2]\<rparr>,
                      temp_block_id := 2\<rparr>)"
    by (simp add: exec_simps buffer_simps sandwich_defs)
  from in_bounds_frame_no_oob [OF fit, of kmem_ok zero_resp] fit ev show ?thesis
    by (simp add: sandwich_len)
qed

text \<open>
  Claim C1 as stated fails. In the 4096-byte buffer \<open>occ_buffer oob_init\<close> a TEMP block declares
  255 records at stride 255; the decode reads records 0 to 15 and then \<^verbatim>\<open>d[4133]\<close>, the
  first byte of record 16, which lies outside the buffer. In a buffer of 44 zero bytes
  the header read of \<^verbatim>\<open>d[44]\<close> lies outside the buffer. No error is returned in either
  case.
\<close>

theorem oob_read_counterexample:
  "length (occ_buffer oob_init) = 4096
   \<and> parse_occ_response (occ_buffer oob_init) kmem_ok zero_resp = Inl (OOBRead 4133)
   \<and> parse_occ_response (replicate 44 0) kmem_ok zero_resp = Inl (OOBRead 44)"
proof -
  have len: "length oob_init = 53"
    by (simp add: oob_init_def)
  have a: "length (occ_buffer oob_init) = 4096"
    by (simp add: length_occ_buffer len OCC_DATA_MAX_def)
  have b: "parse_occ_response (occ_buffer oob_init) kmem_ok zero_resp = Inl (OOBRead 4133)"
    by (simp add: exec_simps buffer_simps parse_block_temp_oob' [where j = 16] len oob_init_def)
  have c: "parse_occ_response (replicate 44 0) kmem_ok zero_resp = Inl (OOBRead 44)"
    by (simp add: parse_occ_response_def parse_header_def rd_def strncpy_numeral)
  from a b c show ?thesis by simp
qed

end
